theory Spec2Isabelle
  imports Complex_Main
begin

section \<open>Python values: exceptions and slices\<close>

text \<open>
  The planner is Python. A raised exception is a value of \<open>exn\<close>; Python integers
  are \<open>int\<close>; Python floats are reals, and where the loop accumulates its deadline
  the rounding of each floating-point operation is written out.
\<close>

datatype exn = ValueError | AttributeError | InferenceError

text \<open>
  \<open>xs[::k]\<close> for \<open>k > 0\<close>: the elements at the indices \<open>0, k, 2k, ...\<close>.
\<close>

fun every_nth :: "nat \<Rightarrow> 'a list \<Rightarrow> 'a list" where
  "every_nth k [] = []"
| "every_nth k (x # xs) = x # every_nth k (drop (k - 1) xs)"

text \<open>
  \<open>xs[::k]\<close> for any integer \<open>k\<close>: a zero step raises \<open>ValueError\<close>, a negative
  step walks the list from its last element backwards.
\<close>

definition py_slice_step :: "int \<Rightarrow> 'a list \<Rightarrow> exn + 'a list" where
  "py_slice_step k xs =
     (if k = 0 then Inl ValueError
      else if 0 < k then Inr (every_nth (nat k) xs)
      else Inr (every_nth (nat (- k)) (rev xs)))"

text \<open>
  \<open>xs[a:b]\<close>: a negative index counts from the end, and both indices are clamped to
  the list.
\<close>

definition py_index :: "nat \<Rightarrow> int \<Rightarrow> nat" where
  "py_index n i = (if i < 0 then nat (max (int n + i) 0) else min (nat i) n)"

definition py_slice :: "int \<Rightarrow> int \<Rightarrow> 'a list \<Rightarrow> 'a list" where
  "py_slice a b xs = drop (py_index (length xs) a) (take (py_index (length xs) b) xs)"

section \<open>Scan preprocessing (\<open>processing_data\<close>, the lines that build \<open>cropped_scans\<close>)\<close>

datatype log_msg = MissedFrequency | CuttingBy int | OneScanTooMuch | ActionPreempted

text \<open>
  The cropping of the decimated scan, with the debug messages it logs:
  \<open>cut_n_elements = (len(scans) - n_laser_scans) // 2\<close>; a positive cut removes that
  many elements on each side; a result one element too long loses its last element.
\<close>

definition cut_n_elements :: "int \<Rightarrow> 'a list \<Rightarrow> int" where
  "cut_n_elements n scans = (int (length scans) - n) div 2"

definition crop_center :: "int \<Rightarrow> 'a list \<Rightarrow> log_msg list \<times> 'a list" where
  "crop_center n scans =
     (if cut_n_elements n scans > 0
      then ([CuttingBy (cut_n_elements n scans)],
            py_slice (cut_n_elements n scans) (- cut_n_elements n scans) scans)
      else ([], scans))"

definition crop_last :: "int \<Rightarrow> 'a list \<Rightarrow> log_msg list \<times> 'a list" where
  "crop_last n cropped_scans =
     (if int (length cropped_scans) = n + 1
      then ([OneScanTooMuch], py_slice 0 (- 1) cropped_scans)
      else ([], cropped_scans))"

definition crop_scans :: "int \<Rightarrow> 'a list \<Rightarrow> log_msg list \<times> 'a list" where
  "crop_scans n scans =
     (case crop_center n scans of (log1, cropped_scans) \<Rightarrow>
        (case crop_last n cropped_scans of (log2, cropped_scans') \<Rightarrow>
           (log1 @ log2, cropped_scans')))"

text \<open>
  The whole preprocessing of one scan: decimation by \<open>laser_scan_stride\<close>, then the
  cropping towards \<open>n_laser_scans\<close> elements.
\<close>

definition preprocess_scan :: "int \<Rightarrow> int \<Rightarrow> 'a list \<Rightarrow> exn + 'a list" where
  "preprocess_scan stride n ranges =
     (case py_slice_step stride ranges of
        Inl e \<Rightarrow> Inl e
      | Inr scans \<Rightarrow> Inr (snd (crop_scans n scans)))"

text \<open>
  The trimming in the spec's words, for comparison with \<open>crop_scans\<close>: remove
  \<open>(d - target_len) // 2\<close> elements from each end of the decimated sequence and, when
  the result has \<open>target_len + 1\<close> elements, drop its last element.
\<close>

definition spec_trim :: "int \<Rightarrow> 'a list \<Rightarrow> 'a list" where
  "spec_trim target_len dec =
     (let c = nat ((int (length dec) - target_len) div 2);
          trimmed = drop c (take (length dec - c) dec)
      in if int (length trimmed) = target_len + 1 then butlast trimmed else trimmed)"

section \<open>Quaternions\<close>

type_synonym vec3 = "real \<times> real \<times> real"
type_synonym quat = "real \<times> real \<times> real \<times> real"

text \<open>
  Modelled from the spec: \<open>tf.transformations\<close> (\<open>quaternion_multiply\<close>,
  \<open>quaternion_inverse\<close>, \<open>euler_from_quaternion\<close>) is a library outside the
  repository. The spec names the quaternion product \<open>\<otimes>\<close>, the inverse and the
  "standard Euler extraction (z-axis component)"; they are written here as the library
  computes them, over the reals, with components in the order \<open>(x, y, z, w)\<close>.
\<close>

fun quaternion_multiply :: "quat \<Rightarrow> quat \<Rightarrow> quat" where
  "quaternion_multiply (x1, y1, z1, w1) (x0, y0, z0, w0) =
     (x1 * w0 + y1 * z0 - z1 * y0 + w1 * x0,
      - x1 * z0 + y1 * w0 + z1 * x0 + w1 * y0,
      x1 * y0 - y1 * x0 + z1 * w0 + w1 * z0,
      - x1 * x0 - y1 * y0 - z1 * z0 + w1 * w0)"

fun quaternion_dot :: "quat \<Rightarrow> quat \<Rightarrow> real" where
  "quaternion_dot (x1, y1, z1, w1) (x0, y0, z0, w0) = x1 * x0 + y1 * y0 + z1 * z0 + w1 * w0"

fun quaternion_conjugate :: "quat \<Rightarrow> quat" where
  "quaternion_conjugate (x, y, z, w) = (- x, - y, - z, w)"

fun quaternion_scale :: "real \<Rightarrow> quat \<Rightarrow> quat" where
  "quaternion_scale c (x, y, z, w) = (c * x, c * y, c * z, c * w)"

definition quaternion_inverse :: "quat \<Rightarrow> quat" where
  "quaternion_inverse q = quaternion_scale (1 / quaternion_dot q q) (quaternion_conjugate q)"

fun quat_x :: "quat \<Rightarrow> real" where
  "quat_x (x, y, z, w) = x"

fun quat_y :: "quat \<Rightarrow> real" where
  "quat_y (x, y, z, w) = y"

definition EPS :: real where
  "EPS = 4 / 2 ^ 52"

definition atan2 :: "real \<Rightarrow> real \<Rightarrow> real" where
  "atan2 y x =
     (if 0 < x then arctan (y / x)
      else if x < 0 then (if 0 \<le> y then arctan (y / x) + pi else arctan (y / x) - pi)
      else if 0 < y then pi / 2
      else if y < 0 then - pi / 2
      else 0)"

text \<open>
  The entries \<open>M[0,0]\<close> and \<open>M[1,0]\<close> of the rotation matrix of a quaternion, which are
  the two entries the z-axis angle reads: a quaternion of norm below \<open>EPS\<close> gives the
  identity matrix, any other is scaled by \<open>sqrt (2 / nq)\<close> first.
\<close>

fun quaternion_matrix_00_10 :: "quat \<Rightarrow> real \<times> real" where
  "quaternion_matrix_00_10 (x, y, z, w) =
     (let nq = quaternion_dot (x, y, z, w) (x, y, z, w)
      in if nq < EPS then (1, 0)
         else (case quaternion_scale (sqrt (2 / nq)) (x, y, z, w) of (x', y', z', w') \<Rightarrow>
                 (1 - y' * y' - z' * z', x' * y' + z' * w')))"

text \<open>\<open>euler_from_quaternion(q)[2]\<close> with the default axes \<open>sxyz\<close>.\<close>

definition euler_from_quaternion_z :: "quat \<Rightarrow> real" where
  "euler_from_quaternion_z q =
     (case quaternion_matrix_00_10 q of (m00, m10) \<Rightarrow>
        (let cy = sqrt (m00 * m00 + m10 * m10)
         in if cy > EPS then atan2 m10 m00 else 0))"

section \<open>Double-precision arithmetic\<close>

text \<open>
  The deadline of the loop is accumulated in Python floats, which are IEEE 754 doubles:
  the result of an addition, a subtraction or a division is the exact result rounded to
  the nearest double, ties to the even significand. A double is an integer multiple of
  its unit in the last place, \<open>2 ^ (e - 52)\<close>, where \<open>e\<close> is its binary exponent and at
  least \<open>-1022\<close> (below that the doubles are subnormal and equally spaced). Magnitudes
  from \<open>2 ^ 1024\<close> on, which overflow to an infinity, are outside this model; clock
  readings are far below.
\<close>

definition round_half_even :: "real \<Rightarrow> int" where
  "round_half_even r =
     (let f = \<lfloor>r\<rfloor>; d = r - of_int f
      in if d < 1 / 2 then f else if 1 / 2 < d then f + 1 else if even f then f else f + 1)"

definition double_exponent :: "real \<Rightarrow> int" where
  "double_exponent x = (if x = 0 then - 1022 else max (- 1022) \<lfloor>log 2 \<bar>x\<bar>\<rfloor>)"

definition double_ulp :: "real \<Rightarrow> real" where
  "double_ulp x = 2 powi (double_exponent x - 52)"

definition double_round :: "real \<Rightarrow> real" where
  "double_round x = of_int (round_half_even (x / double_ulp x)) * double_ulp x"

section \<open>The planner's state and its collaborators\<close>

record pose =
  position :: vec3
  orientation :: quat

record laser_scan =
  ranges :: "real list"

record feedback =
  stamp :: real
  base_position :: pose

datatype tf_error = LookupException | ConnectivityException | ExtrapolationException

text \<open>
  Modelled from the spec: the action server (\<open>actionlib.SimpleActionServer\<close>) is a
  library outside the repository. Its goal is in one of the states of the spec's
  GoalLifecycle; \<open>accept_new_goal\<close> makes it Active, \<open>set_succeeded\<close> and
  \<open>set_preempted\<close> are legal only from Active, \<open>is_active\<close> is a query.
\<close>

datatype goal_state = Idle | Active | Preempted | Succeeded

text \<open>What the planner does to the outside world, in the order it does it.\<close>

datatype event =
    Sleep real
  | LogErr log_msg
  | LogDebug log_msg
  | PublishFeedback feedback
  | PublishCmd real real
  | SetSucceeded
  | SetPreempted

text \<open>
  The fields of \<open>DeepMotionPlanner\<close> that the processing thread reads or writes,
  the local variable \<open>next_call\<close> of \<open>processing_data\<close>, the state of the action
  server, and the trace of effects so far.
\<close>

record planner =
  target_pose :: "pose option"
  last_scan :: "laser_scan option"
  laser_scan_stride :: int
  n_laser_scans :: int
  next_call :: real
  as_status :: goal_state
  trace :: "event list"

definition freq :: real where
  "freq = 25"

definition emit :: "event \<Rightarrow> planner \<Rightarrow> planner" where
  "emit e s = s\<lparr>trace := trace s @ [e]\<rparr>"

definition is_active :: "planner \<Rightarrow> bool" where
  "is_active s = (as_status s = Active)"

definition set_succeeded :: "planner \<Rightarrow> planner" where
  "set_succeeded s = (if as_status s = Active then emit SetSucceeded (s\<lparr>as_status := Succeeded\<rparr>) else s)"

definition set_preempted :: "planner \<Rightarrow> planner" where
  "set_preempted s = (if as_status s = Active then emit SetPreempted (s\<lparr>as_status := Preempted\<rparr>) else s)"

subsection \<open>Callbacks\<close>

datatype callback = ScanCallback laser_scan | GoalCallback pose | PreemptCallback

definition scan_callback :: "laser_scan \<Rightarrow> planner \<Rightarrow> planner" where
  "scan_callback data s = s\<lparr>last_scan := Some data\<rparr>"

definition goal_callback :: "pose \<Rightarrow> planner \<Rightarrow> planner" where
  "goal_callback goal s = s\<lparr>as_status := Active, target_pose := Some goal\<rparr>"

definition preempt_callback :: "planner \<Rightarrow> planner" where
  "preempt_callback s = set_preempted (emit (LogErr ActionPreempted) s)"

fun run_callback :: "callback \<Rightarrow> planner \<Rightarrow> planner" where
  "run_callback (ScanCallback data) s = scan_callback data s"
| "run_callback (GoalCallback goal) s = goal_callback goal s"
| "run_callback PreemptCallback s = preempt_callback s"

fun run_callbacks :: "callback list \<Rightarrow> planner \<Rightarrow> planner" where
  "run_callbacks [] s = s"
| "run_callbacks (c # cs) s = run_callbacks cs (run_callback c s)"

subsection \<open>What one iteration of the loop reads from outside\<close>

text \<open>
  \<open>interrupted\<close> is \<open>interrupt_event.is_set()\<close> at the loop head, \<open>callbacks\<close> are the
  callbacks that ran since the previous iteration, \<open>clock\<close> is \<open>time.time()\<close>,
  \<open>lookup\<close> is the outcome of \<open>lookupTransform\<close> and \<open>ros_now\<close> is
  \<open>rospy.Time().now()\<close>.
\<close>

record tick_env =
  interrupted :: bool
  callbacks :: "callback list"
  clock :: real
  lookup :: "tf_error + vec3 \<times> quat"
  ros_now :: real

type_synonym target = "real \<times> real \<times> real"
type_synonym inference = "real list \<Rightarrow> exn + real \<times> real"

section \<open>\<open>check_goal_reached\<close>\<close>

definition position_tolerance :: real where
  "position_tolerance = 1 / 10"

definition orientation_tolerance :: real where
  "orientation_tolerance = 1 / 10"

fun within_tolerance :: "target \<Rightarrow> bool" where
  "within_tolerance (dx, dy, dyaw) =
     (\<bar>dx\<bar> < position_tolerance \<and> \<bar>dy\<bar> < position_tolerance \<and> \<bar>dyaw\<bar> < orientation_tolerance)"

definition check_goal_reached :: "target \<Rightarrow> planner \<Rightarrow> planner" where
  "check_goal_reached target s = (if within_tolerance target then set_succeeded s else s)"

section \<open>\<open>compute_relative_target\<close>\<close>

fun relative_target :: "vec3 \<Rightarrow> quat \<Rightarrow> pose \<Rightarrow> target" where
  "relative_target (bx, by, bz) p goal =
     (case position goal of (gx, gy, gz) \<Rightarrow>
        (let goal_position_difference = (gx - bx, gy - by);
             q = orientation goal;
             goal_position_base_frame =
               quaternion_multiply (quaternion_inverse p)
                 (quaternion_multiply
                    (fst goal_position_difference, snd goal_position_difference, 0, 0) p);
             orientation_to_target = quaternion_multiply q (quaternion_inverse p);
             yaw = euler_from_quaternion_z orientation_to_target
         in (quat_x goal_position_base_frame, - quat_y goal_position_base_frame, yaw)))"

text \<open>
  The three lookup exceptions are caught and give \<open>None\<close>. Otherwise the feedback is
  published first; reading \<open>self.target_pose.target_pose\<close> when no goal was ever
  stored raises \<open>AttributeError\<close>.
\<close>

definition compute_relative_target ::
  "tick_env \<Rightarrow> planner \<Rightarrow> (exn + target option) \<times> planner" where
  "compute_relative_target env s =
     (case lookup env of
        Inl e \<Rightarrow> (Inr None, s)
      | Inr (base_pos, base_orientation) \<Rightarrow>
          (let fb = \<lparr>stamp = ros_now env,
                     base_position = \<lparr>position = base_pos, orientation = base_orientation\<rparr>\<rparr>;
               s1 = emit (PublishFeedback fb) s
           in case target_pose s1 of
                None \<Rightarrow> (Inl AttributeError, s1)
              | Some goal \<Rightarrow>
                  (Inr (Some (relative_target (position (base_position fb))
                                (orientation (base_position fb)) goal)), s1)))"

section \<open>\<open>processing_data\<close>\<close>

text \<open>
  The scheduling at the head of an iteration. \<open>period\<close> is \<open>1.0 / self.freq\<close>; the sum
  and the difference are floating-point operations.
\<close>

definition period :: real where
  "period = double_round (1 / freq)"

definition arm_deadline :: "real \<Rightarrow> planner \<Rightarrow> planner" where
  "arm_deadline now s =
     (let next_call' = double_round (next_call s + period);
          sleep_time = double_round (next_call' - now)
      in if sleep_time > 0
         then emit (Sleep sleep_time) (s\<lparr>next_call := next_call'\<rparr>)
         else emit (LogErr MissedFrequency) (s\<lparr>next_call := next_call'\<rparr>))"

text \<open>
  From the input vector to the end of the iteration: the scan is decimated and cropped,
  the target is appended, the inference runs, the command is published and the goal
  is checked.
\<close>

fun run_inference :: "inference \<Rightarrow> target \<Rightarrow> planner \<Rightarrow> (exn + unit) \<times> planner" where
  "run_inference infer (t0, t1, t2) s =
     (case last_scan s of
        None \<Rightarrow> (Inl AttributeError, s)
      | Some scan \<Rightarrow>
          (case py_slice_step (laser_scan_stride s) (ranges scan) of
             Inl e \<Rightarrow> (Inl e, s)
           | Inr scans \<Rightarrow>
               (case crop_scans (n_laser_scans s) scans of (logs, cropped_scans) \<Rightarrow>
                  (let s2 = s\<lparr>trace := trace s @ map LogDebug logs\<rparr>;
                       input_data = cropped_scans @ [t0, t1, t2]
                   in case infer input_data of
                        Inl e \<Rightarrow> (Inl e, s2)
                      | Inr (linear_x, angular_z) \<Rightarrow>
                          (Inr (), check_goal_reached (t0, t1, t2)
                                     (emit (PublishCmd linear_x angular_z) s2))))))"

definition tick_body :: "inference \<Rightarrow> tick_env \<Rightarrow> planner \<Rightarrow> (exn + unit) \<times> planner" where
  "tick_body infer env s =
     (if \<not> is_active s then (Inr (), s)
      else if target_pose s = None \<or> last_scan s = None then (Inr (), s)
      else (case compute_relative_target env s of
              (Inl e, s1) \<Rightarrow> (Inl e, s1)
            | (Inr None, s1) \<Rightarrow> (Inr (), s1)
            | (Inr (Some target), s1) \<Rightarrow> run_inference infer target s1))"

definition tick :: "inference \<Rightarrow> tick_env \<Rightarrow> planner \<Rightarrow> (exn + unit) \<times> planner" where
  "tick infer env s = tick_body infer env (arm_deadline (clock env) s)"

text \<open>
  The loop, one element of the list per iteration. It ends when the interrupt is seen
  or when an exception leaves an iteration; \<open>Running\<close> says that every iteration of
  the list ran and the loop is still going.
\<close>

datatype outcome = Interrupted | Raised exn | Running

fun processing_loop :: "inference \<Rightarrow> tick_env list \<Rightarrow> planner \<Rightarrow> outcome \<times> planner" where
  "processing_loop infer [] s = (Running, s)"
| "processing_loop infer (env # envs) s =
     (if interrupted env then (Interrupted, s)
      else (case tick infer env (run_callbacks (callbacks env) s) of
              (Inl e, s') \<Rightarrow> (Raised e, s')
            | (Inr u, s') \<Rightarrow> processing_loop infer envs s'))"

definition processing_data ::
  "inference \<Rightarrow> real \<Rightarrow> tick_env list \<Rightarrow> planner \<Rightarrow> outcome \<times> planner" where
  "processing_data infer t0 envs s = processing_loop infer envs (s\<lparr>next_call := t0\<rparr>)"

text \<open>The commands published in a trace.\<close>

fun commands :: "event list \<Rightarrow> (real \<times> real) list" where
  "commands [] = []"
| "commands (PublishCmd v w # es) = (v, w) # commands es"
| "commands (e # es) = commands es"

text \<open>The durations slept and the errors logged in a trace.\<close>

fun sleeps :: "event list \<Rightarrow> real list" where
  "sleeps [] = []"
| "sleeps (Sleep d # es) = d # sleeps es"
| "sleeps (e # es) = sleeps es"

fun errors :: "event list \<Rightarrow> log_msg list" where
  "errors [] = []"
| "errors (LogErr m # es) = m # errors es"
| "errors (e # es) = errors es"

section \<open>Concrete scenarios\<close>

text \<open>
  A goal at \<open>(3, 4)\<close> with yaw 0, the robot at the origin with the identity
  orientation, a scan of four samples, and a planner with the default parameters
  (stride 2, 540 scans) that holds them with an active goal.
\<close>

definition goal_3_4 :: pose where
  "goal_3_4 = \<lparr>position = (3, 4, 0), orientation = (0, 0, 0, 1)\<rparr>"

definition env_at_origin :: tick_env where
  "env_at_origin = \<lparr>interrupted = False, callbacks = [], clock = 0,
                     lookup = Inr ((0, 0, 0), (0, 0, 0, 1)), ros_now = 0\<rparr>"

definition scan_of_4 :: laser_scan where
  "scan_of_4 = \<lparr>ranges = [1, 2, 3, 4]\<rparr>"

definition planner_540 :: planner where
  "planner_540 = \<lparr>target_pose = Some goal_3_4, last_scan = Some scan_of_4,
                   laser_scan_stride = 2, n_laser_scans = 540, next_call = 0,
                   as_status = Active, trace = []\<rparr>"

text \<open>The same planner, configured for scans of two elements.\<close>

definition planner_2 :: planner where
  "planner_2 = planner_540\<lparr>n_laser_scans := 2\<rparr>"

text \<open>The same planner with no goal accepted yet.\<close>

definition planner_idle :: planner where
  "planner_idle = planner_540\<lparr>as_status := Idle\<rparr>"

text \<open>The idle planner with its deadline at a Unix time of November 2025.\<close>

definition planner_unix :: planner where
  "planner_unix = planner_idle\<lparr>next_call := 1762200000\<rparr>"

text \<open>
  Two inference engines: one answers with the length of its input vector as the linear
  velocity, the other always raises.
\<close>

definition infer_length :: inference where
  "infer_length v = Inr (real (length v), 0)"

definition infer_fails :: inference where
  "infer_fails v = Inl InferenceError"

text \<open>A result that is a target within \<open>eps\<close> of the expected one, component by component.\<close>

fun close_to :: "real \<Rightarrow> target \<Rightarrow> exn + target option \<Rightarrow> bool" where
  "close_to eps (x, y, w) (Inr (Some (x', y', w'))) =
     (\<bar>x' - x\<bar> \<le> eps \<and> \<bar>y' - y\<bar> \<le> eps \<and> \<bar>w' - w\<bar> \<le> eps)"
| "close_to eps t r = False"

section \<open>Properties of the scan preprocessing\<close>

lemma py_slice_cut:
  assumes "0 < c"
  shows "py_slice c (- c) xs = drop (nat c) (take (length xs - nat c) xs)"
proof -
  have a: "py_index (length xs) c = min (nat c) (length xs)"
    using assms by (simp add: py_index_def)
  have b: "py_index (length xs) (- c) = length xs - nat c"
    using assms by (auto simp: py_index_def max_def)
  show ?thesis
    unfolding py_slice_def a b by (simp add: min_def)
qed

lemma py_slice_drop_last: "py_slice 0 (- 1) xs = butlast xs"
proof -
  have "py_index (length xs) (- 1) = length xs - 1"
    by (auto simp: py_index_def max_def)
  moreover have "py_index (length xs) 0 = 0"
    by (simp add: py_index_def)
  ultimately show ?thesis
    by (simp add: py_slice_def butlast_conv_take)
qed

lemma crop_scans_short:
  assumes "int (length scans) < n"
  shows "crop_scans n scans = ([], scans)"
proof -
  have "cut_n_elements n scans < 0"
    using assms by (simp add: cut_n_elements_def)
  then show ?thesis
    using assms by (simp add: crop_scans_def crop_center_def crop_last_def)
qed

lemma crop_scans_long:
  assumes "0 \<le> n" and "n \<le> int (length scans)"
  shows "snd (crop_scans n scans) =
           take (nat n) (drop (nat ((int (length scans) - n) div 2)) scans)"
proof -
  define c where "c = (int (length scans) - n) div 2"
  have c0: "0 \<le> c" using assms by (simp add: c_def)
  have len: "int (length scans) = n + 2 * c \<or> int (length scans) = n + 2 * c + 1"
    unfolding c_def by presburger
  show ?thesis
  proof (cases "0 < c")
    case True
    have ctr: "crop_center n scans =
                 ([CuttingBy c], drop (nat c) (take (length scans - nat c) scans))"
      using True by (simp add: crop_center_def cut_n_elements_def c_def [symmetric] py_slice_cut)
    have lc: "int (length (drop (nat c) (take (length scans - nat c) scans))) =
                int (length scans) - 2 * c"
      using len c0 assms by auto
    from len show ?thesis
    proof
      assume e: "int (length scans) = n + 2 * c"
      then have "int (length (drop (nat c) (take (length scans - nat c) scans))) \<noteq> n + 1"
        using lc by simp
      then have "snd (crop_scans n scans) = drop (nat c) (take (length scans - nat c) scans)"
        by (simp add: crop_scans_def ctr crop_last_def)
      moreover have "length scans - nat c = nat c + nat n"
        using e c0 assms by (simp add: nat_eq_iff)
      ultimately show ?thesis
        by (simp add: c_def [symmetric] drop_take)
    next
      assume e: "int (length scans) = n + 2 * c + 1"
      then have "int (length (drop (nat c) (take (length scans - nat c) scans))) = n + 1"
        using lc by simp
      then have "snd (crop_scans n scans) =
                   butlast (drop (nat c) (take (length scans - nat c) scans))"
        by (simp add: crop_scans_def ctr crop_last_def py_slice_drop_last)
      moreover have "length scans - nat c = nat c + nat n + 1"
        using e c0 assms by (simp add: nat_eq_iff)
      ultimately show ?thesis
        by (simp add: c_def [symmetric] drop_take butlast_conv_take min_def)
    qed
  next
    case False
    then have cz: "c = 0" using c0 by simp
    have ctr: "crop_center n scans = ([], scans)"
      using cz by (simp add: crop_center_def cut_n_elements_def c_def [symmetric])
    from len show ?thesis
    proof
      assume e: "int (length scans) = n + 2 * c"
      then show ?thesis
        using cz assms by (simp add: crop_scans_def ctr crop_last_def c_def [symmetric])
    next
      assume e: "int (length scans) = n + 2 * c + 1"
      then have "length scans = nat n + 1"
        using cz assms by (simp add: nat_eq_iff)
      then show ?thesis
        using cz e by (simp add: crop_scans_def ctr crop_last_def c_def [symmetric]
            py_slice_drop_last butlast_conv_take)
    qed
  qed
qed


section \<open>Properties of the rounding\<close>

lemma double_ulp_pos: "0 < double_ulp x"
  by (simp add: double_ulp_def)

lemma double_exponent_eq:
  assumes "2 powi e \<le> \<bar>x\<bar>" and "\<bar>x\<bar> < 2 powi (e + 1)" and "- 1022 \<le> e"
  shows "double_exponent x = e"
proof -
  have pos: "0 < \<bar>x\<bar>"
    using assms(1) zero_less_power_int [of "2 :: real" e] by linarith
  have "2 powr real_of_int e = (2::real) powi e"
    and "2 powr real_of_int (e + 1) = (2::real) powi (e + 1)"
    by (rule powr_real_of_int'; simp)+
  then have "2 powr real_of_int e \<le> \<bar>x\<bar> \<and> \<bar>x\<bar> < 2 powr real_of_int (e + 1)"
    using assms(1,2) by presburger
  then have "\<lfloor>log 2 \<bar>x\<bar>\<rfloor> = e"
    using pos floor_log_eq_powr_iff [of "\<bar>x\<bar>" 2 e] by simp
  with pos assms(3) show ?thesis
    by (simp add: double_exponent_def)
qed

lemma double_round_eq:
  assumes "2 powi e \<le> \<bar>x\<bar>" and "\<bar>x\<bar> < 2 powi (e + 1)" and "- 1022 \<le> e"
  shows "double_round x = of_int (round_half_even (x / 2 powi (e - 52))) * 2 powi (e - 52)"
  by (simp add: double_round_def double_ulp_def double_exponent_eq [OF assms])

lemma round_half_even_error: "\<bar>of_int (round_half_even r) - r\<bar> \<le> 1 / 2"
  unfolding round_half_even_def Let_def by (auto; linarith)

lemma double_round_error: "\<bar>double_round x - x\<bar> \<le> double_ulp x / 2"
proof -
  have "double_round x - x =
          (of_int (round_half_even (x / double_ulp x)) - x / double_ulp x) * double_ulp x"
    using double_ulp_pos [of x] by (simp add: double_round_def left_diff_distrib)
  then have "\<bar>double_round x - x\<bar> =
          \<bar>of_int (round_half_even (x / double_ulp x)) - x / double_ulp x\<bar> * double_ulp x"
    using double_ulp_pos [of x] by (simp only: abs_mult)
  also have "\<dots> \<le> 1 / 2 * double_ulp x"
    using round_half_even_error [of "x / double_ulp x"] double_ulp_pos [of x]
    by (intro mult_right_mono) simp_all
  finally show ?thesis by simp
qed

lemma round_half_even_nonpos: "r \<le> 0 \<Longrightarrow> round_half_even r \<le> 0"
  unfolding round_half_even_def Let_def by (auto; linarith)

lemma round_half_even_pos: "1 \<le> r \<Longrightarrow> 0 < round_half_even r"
  unfolding round_half_even_def Let_def by (auto; linarith)

lemma double_round_nonpos: "x \<le> 0 \<Longrightarrow> double_round x \<le> 0"
proof -
  assume "x \<le> 0"
  then have "x / double_ulp x \<le> 0"
    using double_ulp_pos [of x] by (simp add: divide_nonpos_pos)
  then have "round_half_even (x / double_ulp x) \<le> 0"
    by (rule round_half_even_nonpos)
  then show ?thesis
    using double_ulp_pos [of x] by (simp add: double_round_def mult_nonpos_nonneg)
qed

lemma double_ulp_le:
  assumes "2 powi (- 1074) \<le> x"
  shows "double_ulp x \<le> x"
proof -
  have pos: "0 < x"
    using assms zero_less_power_int [of "2 :: real" "- 1074"] by linarith
  show ?thesis
  proof (cases "- 1022 \<le> \<lfloor>log 2 \<bar>x\<bar>\<rfloor>")
    case True
    define e where "e = \<lfloor>log 2 \<bar>x\<bar>\<rfloor>"
    have "2 powi e \<le> x"
      using pos floor_log_eq_powr_iff [of x 2 e] by (simp add: e_def powr_real_of_int')
    moreover have "(2::real) powi (e - 52) \<le> 2 powi e"
      by (rule power_int_increasing) simp_all
    moreover have "double_exponent x = e"
      using True pos by (simp add: double_exponent_def e_def)
    ultimately show ?thesis
      by (simp add: double_ulp_def)
  next
    case False
    then have "double_exponent x = - 1022"
      using pos by (simp add: double_exponent_def)
    then show ?thesis
      using assms by (simp add: double_ulp_def)
  qed
qed

lemma double_round_pos:
  assumes "2 powi (- 1074) \<le> x"
  shows "0 < double_round x"
proof -
  have "1 \<le> x / double_ulp x"
    using double_ulp_le [OF assms] double_ulp_pos [of x] by simp
  then have "0 < round_half_even (x / double_ulp x)"
    by (rule round_half_even_pos)
  then show ?thesis
    using double_ulp_pos [of x] by (simp add: double_round_def)
qed

lemma double_round_25th: "double_round (1 / 25) = 5764607523034235 / 2 ^ 57"
proof -
  have "double_round (1 / 25) =
          of_int (round_half_even ((1 / 25) / 2 powi (- 5 - 52))) * 2 powi (- 5 - 52)"
    by (rule double_round_eq) simp_all
  then show ?thesis
    by (simp add: round_half_even_def Let_def)
qed

lemma unix_tick:
  "double_round (1762200000 + 5764607523034235 / 2 ^ 57) = 1762200000 + 41943 / 2 ^ 20"
proof -
  have "double_round (1762200000 + 5764607523034235 / 2 ^ 57) =
          of_int (round_half_even ((1762200000 + 5764607523034235 / 2 ^ 57) / 2 powi (30 - 52)))
            * 2 powi (30 - 52)"
    by (rule double_round_eq) simp_all
  then show ?thesis
    by (simp add: round_half_even_def Let_def)
qed

section \<open>Properties of the state and of the loop\<close>

lemma every_nth_one: "every_nth (Suc 0) xs = xs"
  by (induction xs) simp_all

lemma commands_append: "commands (xs @ ys) = commands xs @ commands ys"
  by (induction xs rule: commands.induct) simp_all

lemma sleeps_append: "sleeps (xs @ ys) = sleeps xs @ sleeps ys"
  by (induction xs rule: sleeps.induct) simp_all

lemma errors_append: "errors (xs @ ys) = errors xs @ errors ys"
  by (induction xs rule: errors.induct) simp_all

lemma quaternion_multiply_assoc:
  "quaternion_multiply a (quaternion_multiply b c) = quaternion_multiply (quaternion_multiply a b) c"
  by (cases a, cases b, cases c) (simp add: algebra_simps)

lemma fields_emit:
  "target_pose (emit e s) = target_pose s"
  "last_scan (emit e s) = last_scan s"
  "laser_scan_stride (emit e s) = laser_scan_stride s"
  "n_laser_scans (emit e s) = n_laser_scans s"
  "next_call (emit e s) = next_call s"
  "as_status (emit e s) = as_status s"
  "trace (emit e s) = trace s @ [e]"
  by (simp_all add: emit_def)

lemma fields_arm_deadline:
  "target_pose (arm_deadline t s) = target_pose s"
  "last_scan (arm_deadline t s) = last_scan s"
  "laser_scan_stride (arm_deadline t s) = laser_scan_stride s"
  "n_laser_scans (arm_deadline t s) = n_laser_scans s"
  "next_call (arm_deadline t s) = double_round (next_call s + period)"
  "as_status (arm_deadline t s) = as_status s"
  "commands (trace (arm_deadline t s)) = commands (trace s)"
  by (simp_all add: arm_deadline_def Let_def fields_emit commands_append)

lemma fields_check_goal_reached:
  "target_pose (check_goal_reached t s) = target_pose s"
  "last_scan (check_goal_reached t s) = last_scan s"
  "laser_scan_stride (check_goal_reached t s) = laser_scan_stride s"
  "n_laser_scans (check_goal_reached t s) = n_laser_scans s"
  "next_call (check_goal_reached t s) = next_call s"
  "commands (trace (check_goal_reached t s)) = commands (trace s)"
  by (simp_all add: check_goal_reached_def set_succeeded_def fields_emit commands_append)

lemma next_call_run_inference:
  "next_call (snd (run_inference infer t s)) = next_call s"
  by (cases t) (simp add: fields_check_goal_reached fields_emit Let_def
      split: option.splits sum.splits prod.splits)

lemma next_call_compute_relative_target:
  "next_call (snd (compute_relative_target env s)) = next_call s"
  by (simp add: compute_relative_target_def fields_emit Let_def
      split: option.splits sum.splits prod.splits)

lemma next_call_tick_body:
  "next_call (snd (tick_body infer env s)) = next_call s"
proof -
  have "next_call (snd (run_inference infer t (snd (compute_relative_target env s)))) = next_call s" for t
    by (simp add: next_call_run_inference next_call_compute_relative_target)
  moreover have "next_call (snd (compute_relative_target env s)) = next_call s"
    by (rule next_call_compute_relative_target)
  ultimately show ?thesis
    by (auto simp: tick_body_def split: prod.splits sum.splits option.splits)
qed

lemma next_call_tick: "next_call (snd (tick infer env s)) = double_round (next_call s + period)"
  by (simp add: tick_def next_call_tick_body fields_arm_deadline)

lemma next_call_run_callbacks: "next_call (run_callbacks cs s) = next_call s"
proof (induction cs arbitrary: s)
  case Nil
  show ?case by simp
next
  case (Cons c cs)
  have "next_call (run_callback c s) = next_call s"
    by (cases c) (simp_all add: scan_callback_def goal_callback_def preempt_callback_def
        set_preempted_def fields_emit)
  with Cons show ?case by simp
qed

lemma next_call_processing_loop:
  "processing_loop infer envs s = (Running, s') \<Longrightarrow>
     next_call s' = ((\<lambda>d. double_round (d + period)) ^^ length envs) (next_call s)"
proof (induction envs arbitrary: s)
  case Nil
  then show ?case by simp
next
  case (Cons env envs)
  obtain r s1 where t: "tick infer env (run_callbacks (callbacks env) s) = (r, s1)"
    by (cases "tick infer env (run_callbacks (callbacks env) s)")
  from Cons.prems t have ni: "\<not> interrupted env" and run: "processing_loop infer envs s1 = (Running, s')"
    by (auto split: if_splits sum.splits)
  have "next_call s1 = double_round (next_call s + period)"
    using next_call_tick [of infer env "run_callbacks (callbacks env) s"] t
    by (simp add: next_call_run_callbacks)
  with Cons.IH [OF run] funpow_swap1 [of "\<lambda>d. double_round (d + period)" "length envs" "next_call s"]
  show ?case
    by simp
qed

lemma outcome_run_inference_cong:
  assumes "last_scan s = last_scan s'" "laser_scan_stride s = laser_scan_stride s'"
    "n_laser_scans s = n_laser_scans s'"
  shows "fst (run_inference infer t s) = fst (run_inference infer t s')"
  using assms by (cases t) (simp add: Let_def split: option.splits sum.splits prod.splits)

lemma outcome_tick_body_arm_deadline:
  "fst (tick_body infer env (arm_deadline t s)) = fst (tick_body infer env s)"
proof (cases "lookup env")
  case (Inl e)
  then show ?thesis
    by (simp add: tick_body_def is_active_def compute_relative_target_def fields_arm_deadline)
next
  case (Inr bp)
  obtain r p where bp: "bp = (r, p)" by (cases bp)
  show ?thesis
  proof (cases "target_pose s")
    case None
    then show ?thesis
      by (simp add: tick_body_def is_active_def fields_arm_deadline)
  next
    case (Some goal)
    have "fst (run_inference infer tg (emit ev (arm_deadline t s))) =
          fst (run_inference infer tg (emit ev s))" for tg ev
      by (rule outcome_run_inference_cong) (simp_all add: fields_emit fields_arm_deadline)
    then show ?thesis
      using Inr bp Some
      by (simp add: tick_body_def is_active_def compute_relative_target_def
          fields_arm_deadline fields_emit Let_def)
  qed
qed

lemma relative_target_origin:
  "relative_target (0, 0, 0) (0, 0, 0, 1) \<lparr>position = (gx, gy, gz), orientation = (0, 0, 0, 1)\<rparr>
     = (gx, - gy, 0)"
  by (simp add: quaternion_inverse_def euler_from_quaternion_z_def EPS_def atan2_def Let_def)

lemma relative_target_goal_3_4: "relative_target (0, 0, 0) (0, 0, 0, 1) goal_3_4 = (3, - 4, 0)"
  unfolding goal_3_4_def by (rule relative_target_origin)

lemma compute_relative_target_origin:
  assumes "target_pose s = Some goal_3_4"
  shows "compute_relative_target env_at_origin s =
     (Inr (Some (3, - 4, 0)),
      emit (PublishFeedback \<lparr>stamp = 0, base_position =
              \<lparr>position = (0, 0, 0), orientation = (0, 0, 0, 1)\<rparr>\<rparr>) s)"
  using assms
  by (simp add: compute_relative_target_def env_at_origin_def fields_emit
      relative_target_goal_3_4 Let_def del: relative_target.simps)

lemma decimate_4: "py_slice_step 2 [1, 2, 3, 4 :: real] = Inr [1, 3]"
  by (simp add: py_slice_step_def)

lemma py_slice_step_one: "py_slice_step 1 xs = Inr xs"
  by (simp add: py_slice_step_def every_nth_one)

lemma tick_body_not_active:
  "\<not> is_active s \<Longrightarrow> tick_body infer env s = (Inr (), s)"
  by (simp add: tick_body_def)

lemma tick_not_active:
  "\<not> is_active s \<Longrightarrow> tick infer env s = (Inr (), arm_deadline (clock env) s)"
  by (simp add: tick_def tick_body_def is_active_def fields_arm_deadline)

lemma commands_map_LogDebug: "commands (map LogDebug logs) = []"
  by (induction logs) simp_all

lemma commands_compute_relative_target:
  "commands (trace (snd (compute_relative_target env s))) = commands (trace s)"
  by (simp add: compute_relative_target_def Let_def fields_emit commands_append
      split: sum.splits option.splits prod.splits)

lemma run_inference_raises:
  assumes "fst (run_inference infer t s) = Inl e"
  shows "commands (trace (snd (run_inference infer t s))) = commands (trace s)"
  using assms
  by (cases t) (auto simp: Let_def commands_append commands_map_LogDebug
      split: option.splits sum.splits prod.splits)

lemma tick_body_lookup_fails:
  "isl (lookup env) \<Longrightarrow> tick_body infer env s = (Inr (), s)"
  by (cases "lookup env") (simp_all add: tick_body_def compute_relative_target_def)

lemma tick_body_no_goal_or_scan:
  "target_pose s = None \<or> last_scan s = None \<Longrightarrow> tick_body infer env s = (Inr (), s)"
  by (auto simp: tick_body_def)

lemma tick_body_active:
  assumes "is_active s" and "target_pose s = Some goal" and "last_scan s = Some scan"
    and "lookup env = Inr (r, p)"
  shows "tick_body infer env s =
           run_inference infer (relative_target r p goal)
             (emit (PublishFeedback \<lparr>stamp = ros_now env,
                      base_position = \<lparr>position = r, orientation = p\<rparr>\<rparr>) s)"
  using assms
  by (simp add: tick_body_def compute_relative_target_def Let_def fields_emit
      del: relative_target.simps run_inference.simps)

lemma tick_body_raises:
  assumes "fst (tick_body infer env s) = Inl e"
  shows "commands (trace (snd (tick_body infer env s))) = commands (trace s)"
proof (cases "is_active s \<and> target_pose s \<noteq> None \<and> last_scan s \<noteq> None \<and> \<not> isl (lookup env)")
  case True
  then obtain goal scan r p where h: "is_active s" "target_pose s = Some goal"
    "last_scan s = Some scan" "lookup env = Inr (r, p)"
    by (cases "lookup env") auto
  let ?s1 = "emit (PublishFeedback \<lparr>stamp = ros_now env,
                      base_position = \<lparr>position = r, orientation = p\<rparr>\<rparr>) s"
  have eq: "tick_body infer env s = run_inference infer (relative_target r p goal) ?s1"
    using h by (rule tick_body_active)
  with assms have "fst (run_inference infer (relative_target r p goal) ?s1) = Inl e"
    by simp
  then have "commands (trace (snd (run_inference infer (relative_target r p goal) ?s1))) =
               commands (trace ?s1)"
    by (rule run_inference_raises)
  then show ?thesis
    by (simp add: eq fields_emit commands_append)
next
  case False
  then have "tick_body infer env s = (Inr (), s)"
    using tick_body_lookup_fails [of env infer s] tick_body_no_goal_or_scan [of s infer env]
      tick_body_not_active [of s infer env] by fastforce
  with assms show ?thesis by simp
qed

lemma run_inference_fails:
  assumes "last_scan s = Some scan"
    and "py_slice_step (laser_scan_stride s) (ranges scan) = Inr dec"
    and "infer (snd (crop_scans (n_laser_scans s) dec) @ [t0, t1, t2]) = Inl e"
  shows "fst (run_inference infer (t0, t1, t2) s) = Inl e"
  using assms by (cases "crop_scans (n_laser_scans s) dec") (simp add: Let_def)

lemma run_inference_publishes:
  assumes "last_scan s = Some scan"
    and "py_slice_step (laser_scan_stride s) (ranges scan) = Inr dec"
    and "crop_scans (n_laser_scans s) dec = (logs, cropped)"
    and "infer (cropped @ [t0, t1, t2]) = Inr (v, w)"
  shows "run_inference infer (t0, t1, t2) s =
           (Inr (), check_goal_reached (t0, t1, t2)
                      (emit (PublishCmd v w) (s\<lparr>trace := trace s @ map LogDebug logs\<rparr>)))"
  using assms by (simp add: Let_def)

lemma tick_inference_fails:
  assumes "is_active s" and "target_pose s = Some goal" and "last_scan s = Some scan"
    and "lookup env = Inr (r, p)" and "relative_target r p goal = (t0, t1, t2)"
    and "py_slice_step (laser_scan_stride s) (ranges scan) = Inr dec"
    and "infer (snd (crop_scans (n_laser_scans s) dec) @ [t0, t1, t2]) = Inl e"
  shows "fst (tick infer env s) = Inl e"
proof -
  let ?s0 = "arm_deadline (clock env) s"
  let ?s1 = "emit (PublishFeedback \<lparr>stamp = ros_now env,
                      base_position = \<lparr>position = r, orientation = p\<rparr>\<rparr>) ?s0"
  have "tick infer env s = run_inference infer (t0, t1, t2) ?s1"
    unfolding tick_def assms(5) [symmetric]
    using assms(1-4) by (intro tick_body_active) (simp_all add: is_active_def fields_arm_deadline)
  moreover have "fst (run_inference infer (t0, t1, t2) ?s1) = Inl e"
    using assms by (intro run_inference_fails [where scan = scan and dec = dec])
      (simp_all add: fields_emit fields_arm_deadline)
  ultimately show ?thesis by simp
qed

lemma tick_publishes:
  assumes "is_active s" and "target_pose s = Some goal" and "last_scan s = Some scan"
    and "lookup env = Inr (r, p)" and "relative_target r p goal = (t0, t1, t2)"
    and "py_slice_step (laser_scan_stride s) (ranges scan) = Inr dec"
    and "crop_scans (n_laser_scans s) dec = (logs, cropped)"
    and "infer (cropped @ [t0, t1, t2]) = Inr (v, w)"
    and "s1 = emit (PublishFeedback \<lparr>stamp = ros_now env,
                base_position = \<lparr>position = r, orientation = p\<rparr>\<rparr>) (arm_deadline (clock env) s)"
  shows "tick infer env s =
           (Inr (), check_goal_reached (t0, t1, t2)
                      (emit (PublishCmd v w) (s1\<lparr>trace := trace s1 @ map LogDebug logs\<rparr>)))"
proof -
  have "tick infer env s = run_inference infer (t0, t1, t2) s1"
    unfolding tick_def assms(5) [symmetric] assms(9)
    using assms(1-4) by (intro tick_body_active) (simp_all add: is_active_def fields_arm_deadline)
  moreover have "run_inference infer (t0, t1, t2) s1 =
           (Inr (), check_goal_reached (t0, t1, t2)
                      (emit (PublishCmd v w) (s1\<lparr>trace := trace s1 @ map LogDebug logs\<rparr>)))"
    using assms by (intro run_inference_publishes [where scan = scan and dec = dec])
      (simp_all add: fields_emit fields_arm_deadline)
  ultimately show ?thesis by simp
qed

lemma tick_skips:
  assumes "\<not> is_active s \<or> target_pose s = None \<or> last_scan s = None \<or> isl (lookup env)"
  shows "tick infer env s = (Inr (), arm_deadline (clock env) s)"
proof -
  let ?s0 = "arm_deadline (clock env) s"
  have "\<not> is_active ?s0 \<or> target_pose ?s0 = None \<or> last_scan ?s0 = None \<or> isl (lookup env)"
    using assms by (simp add: is_active_def fields_arm_deadline)
  then have "tick_body infer env ?s0 = (Inr (), ?s0)"
    using tick_body_lookup_fails [of env infer ?s0] tick_body_no_goal_or_scan [of ?s0 infer env]
      tick_body_not_active [of ?s0 infer env] by fastforce
  then show ?thesis by (simp add: tick_def)
qed

lemma tick_raises:
  assumes "fst (tick infer env s) = Inl e"
  shows "commands (trace (snd (tick infer env s))) = commands (trace s)"
  using tick_body_raises [of infer env "arm_deadline (clock env) s" e] assms
  by (simp add: tick_def fields_arm_deadline)

lemma crop_scans_2: "crop_scans 2 [1, 3 :: real] = ([], [1, 3])"
  by (simp add: crop_scans_def crop_center_def crop_last_def cut_n_elements_def)

lemma planner_2_fields:
  "is_active planner_2" "target_pose planner_2 = Some goal_3_4"
  "last_scan planner_2 = Some scan_of_4" "laser_scan_stride planner_2 = 2"
  "n_laser_scans planner_2 = 2" "trace planner_2 = []" "next_call planner_2 = 0"
  by (simp_all add: planner_2_def planner_540_def is_active_def)

lemma env_at_origin_fields:
  "lookup env_at_origin = Inr ((0, 0, 0), (0, 0, 0, 1))" "\<not> interrupted env_at_origin"
  "callbacks env_at_origin = []" "clock env_at_origin = 0" "ros_now env_at_origin = 0"
  by (simp_all add: env_at_origin_def)

lemma tick_infer_fails_planner_2:
  assumes "is_active s" "target_pose s = Some goal_3_4" "last_scan s = Some scan_of_4"
    "laser_scan_stride s = 2" "n_laser_scans s = 2"
  shows "fst (tick infer_fails env_at_origin s) = Inl InferenceError"
proof (rule tick_inference_fails [where goal = goal_3_4 and scan = scan_of_4
      and r = "(0, 0, 0)" and p = "(0, 0, 0, 1)" and ?t0.0 = 3 and ?t1.0 = "- 4" and ?t2.0 = 0
      and dec = "[1, 3]"])
  show "is_active s" "target_pose s = Some goal_3_4" "last_scan s = Some scan_of_4"
    by (rule assms)+
  show "lookup env_at_origin = Inr ((0, 0, 0), (0, 0, 0, 1))"
    by (rule env_at_origin_fields)
  show "relative_target (0, 0, 0) (0, 0, 0, 1) goal_3_4 = (3, - 4, 0)"
    by (rule relative_target_goal_3_4)
  show "py_slice_step (laser_scan_stride s) (ranges scan_of_4) = Inr [1, 3]"
    by (simp add: assms scan_of_4_def decimate_4)
  show "infer_fails (snd (crop_scans (n_laser_scans s) [1, 3]) @ [3, - 4, 0]) = Inl InferenceError"
    by (simp add: infer_fails_def)
qed

lemma double_round_period:
  "double_round (5764607523034235 / 2 ^ 57) = 5764607523034235 / 2 ^ 57"
proof -
  have "double_round (5764607523034235 / 2 ^ 57) =
          of_int (round_half_even ((5764607523034235 / 2 ^ 57) / 2 powi (- 5 - 52)))
            * 2 powi (- 5 - 52)"
    by (rule double_round_eq) simp_all
  then show ?thesis
    by (simp add: round_half_even_def Let_def)
qed

lemma period_value: "period = 5764607523034235 / 2 ^ 57"
  by (simp add: period_def freq_def double_round_25th)

lemma sleeps_map_LogDebug: "sleeps (map LogDebug logs) = []"
  by (induction logs) simp_all

lemma errors_map_LogDebug: "errors (map LogDebug logs) = []"
  by (induction logs) simp_all

lemma quiet_check_goal_reached:
  "sleeps (trace (check_goal_reached t s)) = sleeps (trace s)"
  "errors (trace (check_goal_reached t s)) = errors (trace s)"
  by (simp_all add: check_goal_reached_def set_succeeded_def fields_emit sleeps_append
      errors_append)

lemma quiet_run_inference:
  "sleeps (trace (snd (run_inference infer t s))) = sleeps (trace s)"
  "errors (trace (snd (run_inference infer t s))) = errors (trace s)"
  by (cases t; simp add: quiet_check_goal_reached fields_emit Let_def sleeps_append
      errors_append sleeps_map_LogDebug errors_map_LogDebug
      split: option.splits sum.splits prod.splits)+

lemma quiet_compute_relative_target:
  "sleeps (trace (snd (compute_relative_target env s))) = sleeps (trace s)"
  "errors (trace (snd (compute_relative_target env s))) = errors (trace s)"
  by (simp_all add: compute_relative_target_def fields_emit Let_def sleeps_append errors_append
      split: option.splits sum.splits prod.splits)

lemma quiet_tick_body:
  "sleeps (trace (snd (tick_body infer env s))) = sleeps (trace s)"
  "errors (trace (snd (tick_body infer env s))) = errors (trace s)"
proof -
  have "sleeps (trace (snd (run_inference infer t (snd (compute_relative_target env s))))) =
          sleeps (trace s)"
    and "errors (trace (snd (run_inference infer t (snd (compute_relative_target env s))))) =
          errors (trace s)" for t
    by (simp_all add: quiet_run_inference quiet_compute_relative_target)
  moreover have "sleeps (trace (snd (compute_relative_target env s))) = sleeps (trace s)"
    and "errors (trace (snd (compute_relative_target env s))) = errors (trace s)"
    by (rule quiet_compute_relative_target)+
  ultimately show "sleeps (trace (snd (tick_body infer env s))) = sleeps (trace s)"
    and "errors (trace (snd (tick_body infer env s))) = errors (trace s)"
    by (auto simp: tick_body_def split: prod.splits sum.splits option.splits)
qed

lemma arm_deadline_missed:
  assumes "double_round (next_call s + period) \<le> t"
  shows "errors (trace (arm_deadline t s)) = errors (trace s) @ [MissedFrequency]"
    and "sleeps (trace (arm_deadline t s)) = sleeps (trace s)"
proof -
  have "double_round (double_round (next_call s + period) - t) \<le> 0"
    using assms by (intro double_round_nonpos) simp
  then show "errors (trace (arm_deadline t s)) = errors (trace s) @ [MissedFrequency]"
    and "sleeps (trace (arm_deadline t s)) = sleeps (trace s)"
    by (simp_all add: arm_deadline_def Let_def fields_emit errors_append sleeps_append)
qed

lemma arm_deadline_ahead:
  assumes "t + 2 powi (- 1074) \<le> double_round (next_call s + period)"
  shows "sleeps (trace (arm_deadline t s)) =
           sleeps (trace s) @ [double_round (double_round (next_call s + period) - t)]"
    and "errors (trace (arm_deadline t s)) = errors (trace s)"
proof -
  have "0 < double_round (double_round (next_call s + period) - t)"
    using assms by (intro double_round_pos) simp
  then show "sleeps (trace (arm_deadline t s)) =
           sleeps (trace s) @ [double_round (double_round (next_call s + period) - t)]"
    and "errors (trace (arm_deadline t s)) = errors (trace s)"
    by (simp_all add: arm_deadline_def Let_def fields_emit errors_append sleeps_append)
qed

lemma six_additions_2: "double_round (5764607523034235 / 2 ^ 57 + 5764607523034235 / 2 ^ 57) = 5764607523034235 / 2 ^ 56"
proof -
  have "double_round (5764607523034235 / 2 ^ 57 + 5764607523034235 / 2 ^ 57) =
     of_int (round_half_even ((5764607523034235 / 2 ^ 57 + 5764607523034235 / 2 ^ 57) / 2 powi (- 4 - 52))) * 2 powi (- 4 - 52)"
    by (rule double_round_eq) simp_all
  then show ?thesis by (simp add: round_half_even_def Let_def)
qed

lemma six_additions_3: "double_round (5764607523034235 / 2 ^ 56 + 5764607523034235 / 2 ^ 57) = 8646911284551352 / 2 ^ 56"
proof -
  have "double_round (5764607523034235 / 2 ^ 56 + 5764607523034235 / 2 ^ 57) =
     of_int (round_half_even ((5764607523034235 / 2 ^ 56 + 5764607523034235 / 2 ^ 57) / 2 powi (- 4 - 52))) * 2 powi (- 4 - 52)"
    by (rule double_round_eq) simp_all
  then show ?thesis by (simp add: round_half_even_def Let_def)
qed

lemma six_additions_4: "double_round (8646911284551352 / 2 ^ 56 + 5764607523034235 / 2 ^ 57) = 5764607523034235 / 2 ^ 55"
proof -
  have "double_round (8646911284551352 / 2 ^ 56 + 5764607523034235 / 2 ^ 57) =
     of_int (round_half_even ((8646911284551352 / 2 ^ 56 + 5764607523034235 / 2 ^ 57) / 2 powi (- 3 - 52))) * 2 powi (- 3 - 52)"
    by (rule double_round_eq) simp_all
  then show ?thesis by (simp add: round_half_even_def Let_def)
qed

lemma six_additions_5: "double_round (5764607523034235 / 2 ^ 55 + 5764607523034235 / 2 ^ 57) = 7205759403792794 / 2 ^ 55"
proof -
  have "double_round (5764607523034235 / 2 ^ 55 + 5764607523034235 / 2 ^ 57) =
     of_int (round_half_even ((5764607523034235 / 2 ^ 55 + 5764607523034235 / 2 ^ 57) / 2 powi (- 3 - 52))) * 2 powi (- 3 - 52)"
    by (rule double_round_eq) simp_all
  then show ?thesis by (simp add: round_half_even_def Let_def)
qed

lemma six_additions_6: "double_round (7205759403792794 / 2 ^ 55 + 5764607523034235 / 2 ^ 57) = 8646911284551353 / 2 ^ 55"
proof -
  have "double_round (7205759403792794 / 2 ^ 55 + 5764607523034235 / 2 ^ 57) =
     of_int (round_half_even ((7205759403792794 / 2 ^ 55 + 5764607523034235 / 2 ^ 57) / 2 powi (- 3 - 52))) * 2 powi (- 3 - 52)"
    by (rule double_round_eq) simp_all
  then show ?thesis by (simp add: round_half_even_def Let_def)
qed

lemma processing_loop_idle:
  assumes "\<forall>env \<in> set envs. \<not> interrupted env \<and> callbacks env = []" and "\<not> is_active s"
  shows "fst (processing_loop infer envs s) = Running"
  using assms
proof (induction envs arbitrary: s)
  case Nil
  show ?case by simp
next
  case (Cons env envs)
  have "\<not> is_active (arm_deadline (clock env) s)"
    using Cons.prems(2) by (simp add: is_active_def fields_arm_deadline)
  then have "fst (processing_loop infer envs (arm_deadline (clock env) s)) = Running"
    using Cons.prems(1) by (intro Cons.IH) simp_all
  then show ?case
    using Cons.prems by (simp add: tick_not_active)
qed

section \<open>The claims\<close>

text \<open>
  C3 (as amended). With the robot at the origin with the identity orientation and the
  goal at position \<open>(3, 4)\<close> with yaw 0, a successful lookup makes
  \<open>compute_relative_target\<close> return \<open>(3, -4, 0)\<close>: the lateral component is negated.
\<close>

theorem relative_target_3_4:
  "fst (compute_relative_target env_at_origin planner_540) = Inr (Some (3, - 4, 0))"
  by (simp add: compute_relative_target_origin planner_540_def)

text \<open>
  C3 as stated fails: the result is not within \<open>1e-9\<close> of \<open>(3, 4, 0)\<close>.
\<close>

theorem relative_target_3_4_counterexample:
  "\<not> close_to (1 / 10 ^ 9) (3, 4, 0) (fst (compute_relative_target env_at_origin planner_540))"
  by (simp add: compute_relative_target_origin planner_540_def)

text \<open>
  C2. When the decimation of the samples has \<open>d \<ge> target_len\<close> elements, the
  preprocessing returns exactly \<open>target_len\<close> elements: the decimated sequence with
  \<open>(d - target_len) // 2\<close> elements removed from each end and, when that leaves
  \<open>target_len + 1\<close> elements, without its last element. A decimated length
  \<open>target_len + 2k\<close> loses \<open>k\<close> elements at each end, and a decimated length
  \<open>target_len + 1\<close> yields the first \<open>target_len\<close> decimated elements
  (\<open>target_len = 540\<close> in the spec's examples).
\<close>

theorem preprocess_trims_to_target_len:
  assumes dec: "py_slice_step stride samples = Inr dec"
    and t0: "0 \<le> target_len"
    and le: "target_len \<le> int (length dec)"
  shows "preprocess_scan stride target_len samples = Inr (spec_trim target_len dec)
       \<and> int (length (spec_trim target_len dec)) = target_len
       \<and> spec_trim target_len dec =
            take (nat target_len) (drop (nat ((int (length dec) - target_len) div 2)) dec)
       \<and> (\<forall>k. int (length dec) = target_len + 2 * int k \<longrightarrow>
            spec_trim target_len dec = take (nat target_len) (drop k dec))
       \<and> (int (length dec) = target_len + 1 \<longrightarrow> spec_trim target_len dec = take (nat target_len) dec)"
proof -
  define c where "c = nat ((int (length dec) - target_len) div 2)"
  define out where "out = take (nat target_len) (drop c dec)"
  have pre: "preprocess_scan stride target_len samples = Inr out"
    using dec crop_scans_long [OF t0 le] by (simp add: preprocess_scan_def out_def c_def)
  have c2: "2 * int c \<le> int (length dec) - target_len"
    using le unfolding c_def by simp
  have c2': "int (length dec) - target_len \<le> 2 * int c + 1"
    using le unfolding c_def by simp
  have len: "int (length out) = target_len"
    using c2 t0 le unfolding out_def by simp
  have trimmed: "spec_trim target_len dec = out"
  proof (cases "int (length dec) - target_len = 2 * int c")
    case True
    then have "length dec - (c + c) = nat target_len" using t0 by (simp add: nat_eq_iff)
    then show ?thesis
      using True t0 by (simp add: spec_trim_def c_def [symmetric] out_def drop_take Let_def)
  next
    case False
    then have e: "int (length dec) - target_len = 2 * int c + 1" using c2 c2' by simp
    then have n: "length dec - (c + c) = nat target_len + 1" using t0 by (simp add: nat_eq_iff)
    define tr where "tr = drop c (take (length dec - c) dec)"
    have tr: "tr = take (nat target_len + 1) (drop c dec)"
      using n by (simp add: tr_def drop_take)
    have ltr: "length tr = nat target_len + 1"
      using n by (simp add: tr)
    have "butlast tr = take (nat target_len) (take (nat target_len + 1) (drop c dec))"
      using ltr by (simp add: butlast_conv_take tr)
    then have bl: "butlast tr = out"
      by (simp add: out_def)
    have "int (length tr) = target_len + 1"
      using ltr t0 by simp
    then have "spec_trim target_len dec = butlast tr"
      unfolding spec_trim_def c_def [symmetric] Let_def tr_def [symmetric] by simp
    with bl show ?thesis by simp
  qed
  have k: "\<forall>k. int (length dec) = target_len + 2 * int k \<longrightarrow> out = take (nat target_len) (drop k dec)"
    by (auto simp: out_def c_def)
  have one: "int (length dec) = target_len + 1 \<longrightarrow> out = take (nat target_len) dec"
    by (auto simp: out_def c_def)
  show ?thesis
    using pre len k one unfolding trimmed by (simp add: out_def c_def)
qed

text \<open>
  C2 at ramps of 542 and 541 samples with stride 1 and 540 scans, and at nine samples
  with stride 2 and three scans.
\<close>

theorem preprocess_trims_to_target_len_witness:
  "preprocess_scan 1 540 (map real [0..<542]) = Inr (map real [1..<541])
   \<and> preprocess_scan 1 540 (map real [0..<541]) = Inr (map real [0..<540])
   \<and> preprocess_scan 2 3 [10, 11, 12, 13, 14, 15, 16, 17, 18 :: real] = Inr [12, 14, 16]"
proof -
  have a: "preprocess_scan 1 540 (map real [0..<542]) = Inr (map real [1..<541])"
    using preprocess_trims_to_target_len [of 1 "map real [0..<542]" "map real [0..<542]" 540]
    by (simp add: py_slice_step_one drop_map take_map)
  have b: "preprocess_scan 1 540 (map real [0..<541]) = Inr (map real [0..<540])"
    using preprocess_trims_to_target_len [of 1 "map real [0..<541]" "map real [0..<541]" 540]
    by (simp add: py_slice_step_one drop_map take_map)
  have "py_slice_step 2 [10, 11, 12, 13, 14, 15, 16, 17, 18 :: real] = Inr [10, 12, 14, 16, 18]"
    by (simp add: py_slice_step_def)
  then have c: "preprocess_scan 2 3 [10, 11, 12, 13, 14, 15, 16, 17, 18 :: real] = Inr [12, 14, 16]"
    using preprocess_trims_to_target_len [of 2 "[10, 11, 12, 13, 14, 15, 16, 17, 18 :: real]"
        "[10, 12, 14, 16, 18]" 3]
    by simp
  from a b c show ?thesis by simp
qed

text \<open>
  C1 (as amended). The preprocessing has no \<open>InsufficientSamples\<close> failure: it fails
  only for a zero stride. When the decimated sequence has fewer than \<open>n_laser_scans\<close>
  elements it is returned unchanged, and the loop passes this shorter vector, followed
  by the three components of the target, to the inference and publishes the command
  that the inference returns, the only command of that iteration.
\<close>

theorem short_scan_passed_to_inference:
  assumes "last_scan s = Some scan"
    and "py_slice_step (laser_scan_stride s) (ranges scan) = Inr dec"
    and "int (length dec) < n_laser_scans s"
    and "infer (dec @ [t0, t1, t2]) = Inr (v, w)"
  shows "preprocess_scan (laser_scan_stride s) (n_laser_scans s) (ranges scan) = Inr dec
       \<and> run_inference infer (t0, t1, t2) s =
           (Inr (), check_goal_reached (t0, t1, t2) (emit (PublishCmd v w) s))
       \<and> commands (trace (snd (run_inference infer (t0, t1, t2) s))) = commands (trace s) @ [(v, w)]
       \<and> (isl (preprocess_scan stride n samples) \<longleftrightarrow> stride = 0)"
proof -
  have c: "crop_scans (n_laser_scans s) dec = ([], dec)"
    using assms(3) by (rule crop_scans_short)
  have a: "preprocess_scan (laser_scan_stride s) (n_laser_scans s) (ranges scan) = Inr dec"
    using assms(2) c by (simp add: preprocess_scan_def)
  have b: "run_inference infer (t0, t1, t2) s =
           (Inr (), check_goal_reached (t0, t1, t2) (emit (PublishCmd v w) s))"
    using assms c by simp
  have b': "commands (trace (snd (run_inference infer (t0, t1, t2) s))) = commands (trace s) @ [(v, w)]"
    unfolding b by (simp add: fields_check_goal_reached fields_emit commands_append)
  have d: "isl (preprocess_scan stride n samples) \<longleftrightarrow> stride = 0"
    by (simp add: preprocess_scan_def py_slice_step_def)
  from a b b' d show ?thesis by simp
qed

text \<open>
  C1 (as amended) at four samples with stride 2 and 540 scans.
\<close>

theorem short_scan_passed_to_inference_witness:
  "preprocess_scan 2 540 [1, 2, 3, 4 :: real] = Inr [1, 3]
   \<and> run_inference infer_length (3, - 4, 0) planner_540 =
       (Inr (), check_goal_reached (3, - 4, 0) (emit (PublishCmd 5 0) planner_540))
   \<and> commands (trace (snd (run_inference infer_length (3, - 4, 0) planner_540))) = [(5, 0)]"
proof -
  have h1: "last_scan planner_540 = Some scan_of_4"
    by (simp add: planner_540_def)
  have h2: "py_slice_step (laser_scan_stride planner_540) (ranges scan_of_4) = Inr [1, 3]"
    by (simp add: planner_540_def scan_of_4_def decimate_4)
  have h3: "int (length [1, 3 :: real]) < n_laser_scans planner_540"
    by (simp add: planner_540_def)
  have h4: "infer_length ([1, 3] @ [3, - 4, 0]) = Inr (5, 0)"
    by (simp add: infer_length_def)
  have "preprocess_scan (laser_scan_stride planner_540) (n_laser_scans planner_540)
          (ranges scan_of_4) = Inr [1, 3]"
    using short_scan_passed_to_inference
        [of planner_540 scan_of_4 "[1, 3]" infer_length 3 "- 4" 0 5 0, OF h1 h2 h3 h4] by blast
  moreover have "run_inference infer_length (3, - 4, 0) planner_540 =
       (Inr (), check_goal_reached (3, - 4, 0) (emit (PublishCmd 5 0) planner_540))"
    using short_scan_passed_to_inference
        [of planner_540 scan_of_4 "[1, 3]" infer_length 3 "- 4" 0 5 0, OF h1 h2 h3 h4] by blast
  moreover have "commands (trace (snd (run_inference infer_length (3, - 4, 0) planner_540))) =
       commands (trace planner_540) @ [(5, 0)]"
    using short_scan_passed_to_inference
        [of planner_540 scan_of_4 "[1, 3]" infer_length 3 "- 4" 0 5 0, OF h1 h2 h3 h4] by blast
  ultimately show ?thesis
    by (simp add: planner_540_def scan_of_4_def del: run_inference.simps)
qed

text \<open>
  C1 as stated fails: four samples with stride 2 decimate to two elements, fewer than
  540; the preprocessing returns them, and the iteration publishes a command computed
  from an input vector of five elements.
\<close>

theorem insufficient_samples_counterexample:
  "preprocess_scan 2 540 (ranges scan_of_4) = Inr [1, 3]
   \<and> commands (trace (snd (tick_body infer_length env_at_origin planner_540))) = [(5, 0)]"
proof -
  have c: "crop_scans 540 [1, 3 :: real] = ([], [1, 3])"
    by (rule crop_scans_short) simp
  have a: "preprocess_scan 2 540 (ranges scan_of_4) = Inr [1, 3]"
    by (simp add: preprocess_scan_def scan_of_4_def decimate_4 c)
  have b: "commands (trace (snd (tick_body infer_length env_at_origin planner_540))) = [(5, 0)]"
  proof -
    have "is_active planner_540" "target_pose planner_540 = Some goal_3_4"
      "last_scan planner_540 = Some scan_of_4"
      by (simp_all add: is_active_def planner_540_def)
    then have "tick_body infer_length env_at_origin planner_540 =
                 run_inference infer_length (3, - 4, 0)
                   (emit (PublishFeedback \<lparr>stamp = 0, base_position =
                      \<lparr>position = (0, 0, 0), orientation = (0, 0, 0, 1)\<rparr>\<rparr>) planner_540)"
      by (simp add: tick_body_def compute_relative_target_origin del: run_inference.simps)
    then show ?thesis
      by (simp add: fields_emit planner_540_def scan_of_4_def decimate_4 c infer_length_def
          fields_check_goal_reached commands_append Let_def)
  qed
  from a b show ?thesis by simp
qed

text \<open>
  C4. When the lookup gives the robot position \<open>r\<close> and orientation \<open>p\<close>, and the goal
  has position \<open>g\<close> and orientation \<open>q\<close>, \<open>compute_relative_target\<close> returns
  \<open>(x, - y, yaw)\<close>, where \<open>x\<close> and \<open>y\<close> are the first two components of
  \<open>p\<inverse> \<otimes> (gx - rx, gy - ry, 0, 0) \<otimes> p\<close> and \<open>yaw\<close> is the z-axis Euler angle of
  \<open>q \<otimes> p\<inverse>\<close>.
\<close>

theorem relative_target_is_sandwich:
  assumes "lookup env = Inr ((rx, ry, rz), p)"
    and "target_pose s = Some goal"
    and "position goal = (gx, gy, gz)"
  shows "fst (compute_relative_target env s) =
           Inr (Some
             (quat_x (quaternion_multiply (quaternion_multiply (quaternion_inverse p) (gx - rx, gy - ry, 0, 0)) p),
              - quat_y (quaternion_multiply (quaternion_multiply (quaternion_inverse p) (gx - rx, gy - ry, 0, 0)) p),
              euler_from_quaternion_z (quaternion_multiply (orientation goal) (quaternion_inverse p))))"
  using assms
  by (simp add: compute_relative_target_def Let_def fields_emit quaternion_multiply_assoc)

text \<open>
  C4 with the robot at \<open>(1, 1)\<close> turned a quarter turn to the left and the goal at
  \<open>(3, 4)\<close> with the same heading.
\<close>

theorem relative_target_is_sandwich_witness:
  "fst (compute_relative_target (env_at_origin\<lparr>lookup := Inr ((1, 1, 0), (0, 0, 1, 1))\<rparr>)
         (planner_540\<lparr>target_pose := Some \<lparr>position = (3, 4, 0), orientation = (0, 0, 1, 1)\<rparr>\<rparr>))
     = Inr (Some (3, 2, 0))"
  using relative_target_is_sandwich [of "env_at_origin\<lparr>lookup := Inr ((1, 1, 0), (0, 0, 1, 1))\<rparr>"
      1 1 0 "(0, 0, 1, 1)"
      "planner_540\<lparr>target_pose := Some \<lparr>position = (3, 4, 0), orientation = (0, 0, 1, 1)\<rparr>\<rparr>"
      "\<lparr>position = (3, 4, 0), orientation = (0, 0, 1, 1)\<rparr>" 3 4 0]
  by (simp add: quaternion_inverse_def euler_from_quaternion_z_def EPS_def atan2_def Let_def)

text \<open>
  C7. \<open>compute_relative_target\<close> returns \<open>None\<close> exactly when the lookup fails, whatever
  the goal; each of the three lookup errors gives \<open>None\<close> without raising and leaves
  the state as it was.
\<close>

theorem lookup_failure_gives_none:
  "(fst (compute_relative_target env s) = Inr None \<longleftrightarrow> isl (lookup env))
   \<and> (lookup env = Inl LookupException \<longrightarrow> compute_relative_target env s = (Inr None, s))
   \<and> (lookup env = Inl ConnectivityException \<longrightarrow> compute_relative_target env s = (Inr None, s))
   \<and> (lookup env = Inl ExtrapolationException \<longrightarrow> compute_relative_target env s = (Inr None, s))"
  by (simp add: compute_relative_target_def Let_def split: sum.splits option.splits prod.splits)

text \<open>
  C7 at each of the three lookup errors, and at a lookup that succeeds.
\<close>

theorem lookup_failure_gives_none_witness:
  "compute_relative_target (env_at_origin\<lparr>lookup := Inl LookupException\<rparr>) planner_540
     = (Inr None, planner_540)
   \<and> compute_relative_target (env_at_origin\<lparr>lookup := Inl ConnectivityException\<rparr>) planner_540
     = (Inr None, planner_540)
   \<and> compute_relative_target (env_at_origin\<lparr>lookup := Inl ExtrapolationException\<rparr>) planner_540
     = (Inr None, planner_540)
   \<and> fst (compute_relative_target env_at_origin planner_540) \<noteq> Inr None"
  using lookup_failure_gives_none [of "env_at_origin\<lparr>lookup := Inl LookupException\<rparr>" planner_540]
    lookup_failure_gives_none [of "env_at_origin\<lparr>lookup := Inl ConnectivityException\<rparr>" planner_540]
    lookup_failure_gives_none [of "env_at_origin\<lparr>lookup := Inl ExtrapolationException\<rparr>" planner_540]
    lookup_failure_gives_none [of env_at_origin planner_540]
  by (simp add: env_at_origin_def)

text \<open>
  C8. With an Active goal, \<open>check_goal_reached\<close> makes the goal Succeeded if and only
  if \<open>|dx|\<close> and \<open>|dy|\<close> are below the position tolerance and \<open>|dyaw|\<close> is below the
  orientation tolerance, all three strictly; otherwise the state is unchanged.
\<close>

theorem check_goal_reached_iff:
  assumes "as_status s = Active"
  shows "(as_status (check_goal_reached (dx, dy, dyaw) s) = Succeeded \<longleftrightarrow>
            \<bar>dx\<bar> < position_tolerance \<and> \<bar>dy\<bar> < position_tolerance \<and> \<bar>dyaw\<bar> < orientation_tolerance)
       \<and> (\<not> (\<bar>dx\<bar> < position_tolerance \<and> \<bar>dy\<bar> < position_tolerance \<and> \<bar>dyaw\<bar> < orientation_tolerance)
            \<longrightarrow> check_goal_reached (dx, dy, dyaw) s = s)"
  using assms by (simp add: check_goal_reached_def set_succeeded_def fields_emit)

text \<open>
  C8 at a target within the tolerances, and at a target whose first component is
  exactly the position tolerance.
\<close>

theorem check_goal_reached_iff_witness:
  "as_status (check_goal_reached (1 / 20, - 1 / 20, 9 / 100) planner_540) = Succeeded
   \<and> check_goal_reached (1 / 10, 0, 0) planner_540 = planner_540"
proof -
  have a: "as_status planner_540 = Active"
    by (simp add: planner_540_def)
  show ?thesis
    using check_goal_reached_iff [OF a, of "1 / 20" "- 1 / 20" "9 / 100"]
      check_goal_reached_iff [OF a, of "1 / 10" 0 0]
    by (simp add: position_tolerance_def orientation_tolerance_def)
qed

text \<open>
  C9 (as amended). Every iteration replaces \<open>next_call\<close> by the double nearest to
  \<open>next_call + period\<close>, whatever the clock reads and however the iteration ends: the
  deadline advances by the period up to half a unit in the last place, and after \<open>n\<close>
  iterations it is the \<open>n\<close>-fold rounded sum from the initial time. When the new deadline
  has passed, the iteration logs exactly one missed-frequency error and does not sleep;
  when the deadline is ahead, it sleeps once, for the rounded time that remains, and
  logs no error. The scheduling does not change how the iteration ends: a missed
  deadline raises nothing.
\<close>

theorem deadline_advances_by_rounded_period:
  "next_call (snd (tick infer env s)) = double_round (next_call s + period)
   \<and> \<bar>next_call (snd (tick infer env s)) - (next_call s + period)\<bar>
        \<le> double_ulp (next_call s + period) / 2
   \<and> fst (tick infer env s) = fst (tick_body infer env s)
   \<and> (double_round (next_call s + period) \<le> clock env \<longrightarrow>
        errors (trace (snd (tick infer env s))) = errors (trace s) @ [MissedFrequency]
        \<and> sleeps (trace (snd (tick infer env s))) = sleeps (trace s))
   \<and> (clock env + 2 powi (- 1074) \<le> double_round (next_call s + period) \<longrightarrow>
        sleeps (trace (snd (tick infer env s))) =
          sleeps (trace s) @ [double_round (double_round (next_call s + period) - clock env)]
        \<and> errors (trace (snd (tick infer env s))) = errors (trace s))
   \<and> (processing_data infer t0 envs s = (Running, s') \<longrightarrow>
        next_call s' = ((\<lambda>d. double_round (d + period)) ^^ length envs) t0)"
proof -
  have a: "next_call (snd (tick infer env s)) = double_round (next_call s + period)"
    by (rule next_call_tick)
  have a': "\<bar>next_call (snd (tick infer env s)) - (next_call s + period)\<bar>
        \<le> double_ulp (next_call s + period) / 2"
    unfolding a by (rule double_round_error)
  have b: "fst (tick infer env s) = fst (tick_body infer env s)"
    by (simp add: tick_def outcome_tick_body_arm_deadline)
  have c: "double_round (next_call s + period) \<le> clock env \<longrightarrow>
        errors (trace (snd (tick infer env s))) = errors (trace s) @ [MissedFrequency]
        \<and> sleeps (trace (snd (tick infer env s))) = sleeps (trace s)"
    by (simp add: tick_def quiet_tick_body arm_deadline_missed)
  have d: "clock env + 2 powi (- 1074) \<le> double_round (next_call s + period) \<longrightarrow>
        sleeps (trace (snd (tick infer env s))) =
          sleeps (trace s) @ [double_round (double_round (next_call s + period) - clock env)]
        \<and> errors (trace (snd (tick infer env s))) = errors (trace s)"
    by (simp add: tick_def quiet_tick_body arm_deadline_ahead)
  have e: "processing_data infer t0 envs s = (Running, s') \<longrightarrow>
        next_call s' = ((\<lambda>d. double_round (d + period)) ^^ length envs) t0"
    using next_call_processing_loop [of infer envs "s\<lparr>next_call := t0\<rparr>" s']
    by (simp add: processing_data_def)
  from a a' b c d e show ?thesis by blast
qed

text \<open>
  C9 (as amended) at a missed deadline, at a deadline still ahead, and over six
  iterations from time 0, which end at \<open>0.24000000000000002\<close>.
\<close>

theorem deadline_advances_by_rounded_period_witness:
  "next_call (snd (tick infer_length (env_at_origin\<lparr>clock := 5\<rparr>) planner_540))
     = 5764607523034235 / 2 ^ 57
   \<and> errors (trace (snd (tick infer_length (env_at_origin\<lparr>clock := 5\<rparr>) planner_540)))
     = [MissedFrequency]
   \<and> sleeps (trace (snd (tick infer_length (env_at_origin\<lparr>clock := 5\<rparr>) planner_540))) = []
   \<and> sleeps (trace (snd (tick infer_length env_at_origin planner_540)))
     = [5764607523034235 / 2 ^ 57]
   \<and> errors (trace (snd (tick infer_length env_at_origin planner_540))) = []
   \<and> next_call (snd (processing_data infer_length 0
             [env_at_origin, env_at_origin, env_at_origin, env_at_origin, env_at_origin,
              env_at_origin\<lparr>clock := 5\<rparr>] planner_idle))
     = 8646911284551353 / 2 ^ 55"
proof -
  have np: "next_call planner_540 = 0" "trace planner_540 = []"
    by (simp_all add: planner_540_def)
  have nc: "double_round (next_call planner_540 + period) = 5764607523034235 / 2 ^ 57"
    unfolding np(1) period_value add_0 by (rule double_round_period)
  have small: "(2::real) powi (- 1074) \<le> 2 powi (- 5)"
    by (rule power_int_increasing) simp_all
  note missed = deadline_advances_by_rounded_period
    [of infer_length "env_at_origin\<lparr>clock := 5\<rparr>" planner_540]
  note ahead = deadline_advances_by_rounded_period [of infer_length env_at_origin planner_540]
  have a: "next_call (snd (tick infer_length (env_at_origin\<lparr>clock := 5\<rparr>) planner_540))
     = 5764607523034235 / 2 ^ 57"
    using missed nc by simp
  have "double_round (next_call planner_540 + period) \<le> clock (env_at_origin\<lparr>clock := 5\<rparr>)"
    unfolding nc by (simp add: env_at_origin_def)
  with missed have b: "errors (trace (snd (tick infer_length (env_at_origin\<lparr>clock := 5\<rparr>) planner_540)))
       = errors (trace planner_540) @ [MissedFrequency]
     \<and> sleeps (trace (snd (tick infer_length (env_at_origin\<lparr>clock := 5\<rparr>) planner_540)))
       = sleeps (trace planner_540)"
    by blast
  have "clock env_at_origin + 2 powi (- 1074) \<le> double_round (next_call planner_540 + period)"
    unfolding nc using small by (simp add: env_at_origin_def)
  with ahead have c: "sleeps (trace (snd (tick infer_length env_at_origin planner_540))) =
          sleeps (trace planner_540) @
            [double_round (double_round (next_call planner_540 + period) - clock env_at_origin)]
        \<and> errors (trace (snd (tick infer_length env_at_origin planner_540))) = errors (trace planner_540)"
    by blast
  let ?envs = "[env_at_origin, env_at_origin, env_at_origin, env_at_origin, env_at_origin,
                env_at_origin\<lparr>clock := 5\<rparr>]"
  have "fst (processing_loop infer_length ?envs (planner_idle\<lparr>next_call := 0\<rparr>)) = Running"
    by (rule processing_loop_idle) (simp_all add: env_at_origin_def is_active_def planner_idle_def)
  then have run: "processing_data infer_length 0 ?envs planner_idle =
                    (Running, snd (processing_data infer_length 0 ?envs planner_idle))"
    by (simp add: processing_data_def prod_eq_iff)
  have "next_call (snd (processing_data infer_length 0 ?envs planner_idle)) =
          ((\<lambda>d. double_round (d + period)) ^^ length ?envs) 0"
    using deadline_advances_by_rounded_period [of infer_length env_at_origin planner_idle 0 ?envs
        "snd (processing_data infer_length 0 ?envs planner_idle)"] run
    by blast
  also have "length ?envs = Suc (Suc (Suc (Suc (Suc (Suc 0)))))"
    by simp
  also have "((\<lambda>d. double_round (d + period)) ^^ Suc (Suc (Suc (Suc (Suc (Suc 0)))))) 0
               = 8646911284551353 / 2 ^ 55"
    unfolding funpow.simps o_apply id_apply period_value add_0
      double_round_period six_additions_2 six_additions_3 six_additions_4 six_additions_5
      six_additions_6
    by (rule refl)
  finally have d: "next_call (snd (processing_data infer_length 0 ?envs planner_idle))
     = 8646911284551353 / 2 ^ 55" .
  have clk: "clock env_at_origin = 0"
    by (simp add: env_at_origin_def)
  have sl: "double_round (double_round (next_call planner_540 + period) - clock env_at_origin)
              = 5764607523034235 / 2 ^ 57"
    unfolding nc clk diff_zero by (rule double_round_period)
  from c have c': "sleeps (trace (snd (tick infer_length env_at_origin planner_540)))
       = [5764607523034235 / 2 ^ 57]
     \<and> errors (trace (snd (tick infer_length env_at_origin planner_540))) = []"
    unfolding sl by (simp add: np)
  from b have b': "errors (trace (snd (tick infer_length (env_at_origin\<lparr>clock := 5\<rparr>) planner_540)))
       = [MissedFrequency]
     \<and> sleeps (trace (snd (tick infer_length (env_at_origin\<lparr>clock := 5\<rparr>) planner_540))) = []"
    by (simp add: np)
  from a b' c' d show ?thesis
    by blast
qed

text \<open>
  C9 as stated fails: from a deadline at a Unix time, one iteration does not advance
  the deadline by exactly the period, neither by \<open>1 / freq\<close> nor by its double.
\<close>

theorem deadline_not_exact_counterexample:
  "next_call (snd (tick infer_length env_at_origin planner_unix))
     \<noteq> next_call planner_unix + 1 / freq
   \<and> next_call (snd (tick infer_length env_at_origin planner_unix))
     \<noteq> next_call planner_unix + period"
proof -
  have n: "next_call planner_unix = 1762200000"
    by (simp add: planner_unix_def)
  have "next_call (snd (tick infer_length env_at_origin planner_unix)) =
          1762200000 + 41943 / 2 ^ 20"
    unfolding next_call_tick n period_value by (rule unix_tick)
  then show ?thesis
    by (simp add: n period_value freq_def)
qed

text \<open>
  C10. On a failed lookup \<open>compute_relative_target\<close> returns \<open>None\<close> and leaves the
  state, trace included, as it was, even when no goal pose is stored; on a successful
  lookup it appends exactly one feedback record, the current pose, to the trace.
\<close>

theorem feedback_iff_lookup_succeeds:
  "(\<forall>e. lookup env = Inl e \<longrightarrow> compute_relative_target env s = (Inr None, s))
   \<and> (\<forall>r p. lookup env = Inr (r, p) \<longrightarrow>
        trace (snd (compute_relative_target env s)) =
          trace s @ [PublishFeedback \<lparr>stamp = ros_now env,
                       base_position = \<lparr>position = r, orientation = p\<rparr>\<rparr>])"
  by (simp add: compute_relative_target_def Let_def fields_emit split: option.splits)

text \<open>
  C10 at a failed lookup with no goal pose stored, and at a successful lookup.
\<close>

theorem feedback_iff_lookup_succeeds_witness:
  "compute_relative_target (env_at_origin\<lparr>lookup := Inl LookupException\<rparr>)
       (planner_540\<lparr>target_pose := None\<rparr>)
     = (Inr None, planner_540\<lparr>target_pose := None\<rparr>)
   \<and> trace (snd (compute_relative_target env_at_origin planner_540)) =
       [PublishFeedback \<lparr>stamp = 0, base_position =
          \<lparr>position = (0, 0, 0), orientation = (0, 0, 0, 1)\<rparr>\<rparr>]"
  using feedback_iff_lookup_succeeds [of "env_at_origin\<lparr>lookup := Inl LookupException\<rparr>"
      "planner_540\<lparr>target_pose := None\<rparr>"]
    feedback_iff_lookup_succeeds [of env_at_origin planner_540]
  by (simp add: env_at_origin_def planner_540_def)

text \<open>
  C5 (as amended). A failed lookup is absorbed by the iteration: no command is
  published and the loop goes on with the next iteration. An exception that leaves an
  iteration is not caught: the loop ends with that exception, and no command was
  published in that iteration. A failure of the inference call is such an exception.
\<close>

theorem uncaught_exception_ends_loop:
  assumes "\<not> interrupted env" and "s0 = run_callbacks (callbacks env) s"
  shows "(isl (lookup env) \<longrightarrow>
            tick infer env s0 = (Inr (), arm_deadline (clock env) s0)
            \<and> commands (trace (arm_deadline (clock env) s0)) = commands (trace s0)
            \<and> processing_loop infer (env # envs) s =
                processing_loop infer envs (arm_deadline (clock env) s0))
       \<and> (\<forall>e. fst (tick infer env s0) = Inl e \<longrightarrow>
            processing_loop infer (env # envs) s = (Raised e, snd (tick infer env s0))
            \<and> commands (trace (snd (tick infer env s0))) = commands (trace s0))
       \<and> (\<forall>goal scan r p t0 t1 t2 dec e.
            is_active s0 \<and> target_pose s0 = Some goal \<and> last_scan s0 = Some scan
            \<and> lookup env = Inr (r, p) \<and> relative_target r p goal = (t0, t1, t2)
            \<and> py_slice_step (laser_scan_stride s0) (ranges scan) = Inr dec
            \<and> infer (snd (crop_scans (n_laser_scans s0) dec) @ [t0, t1, t2]) = Inl e
            \<longrightarrow> fst (tick infer env s0) = Inl e)"
proof -
  have a: "isl (lookup env) \<longrightarrow>
            tick infer env s0 = (Inr (), arm_deadline (clock env) s0)
            \<and> commands (trace (arm_deadline (clock env) s0)) = commands (trace s0)
            \<and> processing_loop infer (env # envs) s =
                processing_loop infer envs (arm_deadline (clock env) s0)"
    using assms by (simp add: tick_skips fields_arm_deadline)
  have b: "\<forall>e. fst (tick infer env s0) = Inl e \<longrightarrow>
            processing_loop infer (env # envs) s = (Raised e, snd (tick infer env s0))
            \<and> commands (trace (snd (tick infer env s0))) = commands (trace s0)"
  proof (intro allI impI)
    fix e
    assume r: "fst (tick infer env s0) = Inl e"
    then obtain s' where t: "tick infer env s0 = (Inl e, s')"
      by (cases "tick infer env s0") auto
    then have "processing_loop infer (env # envs) s = (Raised e, snd (tick infer env s0))"
      using assms by simp
    then show "processing_loop infer (env # envs) s = (Raised e, snd (tick infer env s0))
            \<and> commands (trace (snd (tick infer env s0))) = commands (trace s0)"
      using tick_raises [OF r] by simp
  qed
  have c: "\<forall>goal scan r p t0 t1 t2 dec e.
            is_active s0 \<and> target_pose s0 = Some goal \<and> last_scan s0 = Some scan
            \<and> lookup env = Inr (r, p) \<and> relative_target r p goal = (t0, t1, t2)
            \<and> py_slice_step (laser_scan_stride s0) (ranges scan) = Inr dec
            \<and> infer (snd (crop_scans (n_laser_scans s0) dec) @ [t0, t1, t2]) = Inl e
            \<longrightarrow> fst (tick infer env s0) = Inl e"
    using tick_inference_fails by blast
  from a b c show ?thesis by blast
qed

text \<open>
  C5 (as amended) at a failed lookup, and at an inference that raises in the first of
  two iterations.
\<close>

theorem uncaught_exception_ends_loop_witness:
  "processing_loop infer_length [env_at_origin\<lparr>lookup := Inl LookupException\<rparr>] planner_2 =
     (Running, arm_deadline 0 planner_2)
   \<and> fst (processing_loop infer_fails [env_at_origin, env_at_origin] planner_2) = Raised InferenceError
   \<and> commands (trace (snd (processing_loop infer_fails [env_at_origin, env_at_origin] planner_2))) = []"
proof -
  have ni: "\<not> interrupted (env_at_origin\<lparr>lookup := Inl LookupException\<rparr>)"
    and s0: "planner_2 = run_callbacks (callbacks (env_at_origin\<lparr>lookup := Inl LookupException\<rparr>)) planner_2"
    by (simp_all add: env_at_origin_def)
  have a: "processing_loop infer_length [env_at_origin\<lparr>lookup := Inl LookupException\<rparr>] planner_2 =
     (Running, arm_deadline 0 planner_2)"
    using uncaught_exception_ends_loop [OF ni s0, of infer_length "[]"]
    by (simp add: env_at_origin_def del: processing_loop.simps(2))
  have ni': "\<not> interrupted env_at_origin"
    and s0': "planner_2 = run_callbacks (callbacks env_at_origin) planner_2"
    by (simp_all add: env_at_origin_def)
  have crop: "snd (crop_scans (n_laser_scans planner_2) [1, 3 :: real]) = [1, 3]"
    by (simp add: planner_2_fields crop_scans_2)
  have raise: "fst (tick infer_fails env_at_origin planner_2) = Inl InferenceError"
    using uncaught_exception_ends_loop [OF ni' s0', of infer_fails "[env_at_origin]"]
      planner_2_fields env_at_origin_fields relative_target_goal_3_4
    by (simp add: scan_of_4_def decimate_4 infer_fails_def del: relative_target.simps)
  have b: "processing_loop infer_fails [env_at_origin, env_at_origin] planner_2 =
             (Raised InferenceError, snd (tick infer_fails env_at_origin planner_2))
           \<and> commands (trace (snd (tick infer_fails env_at_origin planner_2))) = commands (trace planner_2)"
    using uncaught_exception_ends_loop [OF ni' s0', of infer_fails "[env_at_origin]"] raise
    by blast
  from a b show ?thesis
    by (simp add: planner_2_fields del: processing_loop.simps(2))
qed

text \<open>
  C5 as stated fails: with an inference that raises, the loop ends with the exception
  in its first iteration.
\<close>

theorem inference_failure_counterexample:
  "fst (processing_data infer_fails 0 [env_at_origin, env_at_origin] planner_2) = Raised InferenceError"
proof -
  have "fst (tick infer_fails env_at_origin (planner_2\<lparr>next_call := 0\<rparr>)) = Inl InferenceError"
    by (rule tick_infer_fails_planner_2) (simp_all add: planner_2_fields is_active_def planner_2_def planner_540_def)
  then obtain s' where "tick infer_fails env_at_origin (planner_2\<lparr>next_call := 0\<rparr>) = (Inl InferenceError, s')"
    by (cases "tick infer_fails env_at_origin (planner_2\<lparr>next_call := 0\<rparr>)") auto
  then show ?thesis
    by (simp add: processing_data_def env_at_origin_fields)
qed

text \<open>
  C6. When no goal is active or stored, or no scan has arrived, or the lookup fails, the
  iteration publishes no command and only re-arms the deadline. Otherwise, with a
  decimation and an inference call that return, exactly one command is published, and
  \<open>check_goal_reached\<close> then runs on the same target whose components were appended
  to the input vector of the inference.
\<close>

theorem tick_skips_or_publishes_once:
  "(\<not> is_active s \<or> target_pose s = None \<or> last_scan s = None \<or> isl (lookup env) \<longrightarrow>
      tick infer env s = (Inr (), arm_deadline (clock env) s)
      \<and> commands (trace (arm_deadline (clock env) s)) = commands (trace s)
      \<and> next_call (arm_deadline (clock env) s) = double_round (next_call s + period))
   \<and> (is_active s \<and> target_pose s = Some goal \<and> last_scan s = Some scan
      \<and> lookup env = Inr (r, p) \<and> relative_target r p goal = (t0, t1, t2)
      \<and> py_slice_step (laser_scan_stride s) (ranges scan) = Inr dec
      \<and> crop_scans (n_laser_scans s) dec = (logs, cropped)
      \<and> infer (cropped @ [t0, t1, t2]) = Inr (v, w)
      \<and> s1 = emit (PublishFeedback \<lparr>stamp = ros_now env,
                base_position = \<lparr>position = r, orientation = p\<rparr>\<rparr>) (arm_deadline (clock env) s) \<longrightarrow>
      tick infer env s =
        (Inr (), check_goal_reached (t0, t1, t2)
                   (emit (PublishCmd v w) (s1\<lparr>trace := trace s1 @ map LogDebug logs\<rparr>)))
      \<and> commands (trace (snd (tick infer env s))) = commands (trace s) @ [(v, w)])"
proof -
  have a: "\<not> is_active s \<or> target_pose s = None \<or> last_scan s = None \<or> isl (lookup env) \<longrightarrow>
      tick infer env s = (Inr (), arm_deadline (clock env) s)
      \<and> commands (trace (arm_deadline (clock env) s)) = commands (trace s)
      \<and> next_call (arm_deadline (clock env) s) = double_round (next_call s + period)"
    using tick_skips by (simp add: fields_arm_deadline)
  have b: "is_active s \<and> target_pose s = Some goal \<and> last_scan s = Some scan
      \<and> lookup env = Inr (r, p) \<and> relative_target r p goal = (t0, t1, t2)
      \<and> py_slice_step (laser_scan_stride s) (ranges scan) = Inr dec
      \<and> crop_scans (n_laser_scans s) dec = (logs, cropped)
      \<and> infer (cropped @ [t0, t1, t2]) = Inr (v, w)
      \<and> s1 = emit (PublishFeedback \<lparr>stamp = ros_now env,
                base_position = \<lparr>position = r, orientation = p\<rparr>\<rparr>) (arm_deadline (clock env) s) \<longrightarrow>
      tick infer env s =
        (Inr (), check_goal_reached (t0, t1, t2)
                   (emit (PublishCmd v w) (s1\<lparr>trace := trace s1 @ map LogDebug logs\<rparr>)))
      \<and> commands (trace (snd (tick infer env s))) = commands (trace s) @ [(v, w)]"
  proof (intro impI, elim conjE)
    assume h: "is_active s" "target_pose s = Some goal" "last_scan s = Some scan"
      "lookup env = Inr (r, p)" "relative_target r p goal = (t0, t1, t2)"
      "py_slice_step (laser_scan_stride s) (ranges scan) = Inr dec"
      "crop_scans (n_laser_scans s) dec = (logs, cropped)"
      "infer (cropped @ [t0, t1, t2]) = Inr (v, w)"
      "s1 = emit (PublishFeedback \<lparr>stamp = ros_now env,
                base_position = \<lparr>position = r, orientation = p\<rparr>\<rparr>) (arm_deadline (clock env) s)"
    have t: "tick infer env s =
        (Inr (), check_goal_reached (t0, t1, t2)
                   (emit (PublishCmd v w) (s1\<lparr>trace := trace s1 @ map LogDebug logs\<rparr>)))"
      using h by (rule tick_publishes)
    have "commands (trace (snd (tick infer env s))) = commands (trace s) @ [(v, w)]"
      unfolding t
      by (simp add: fields_check_goal_reached fields_emit commands_append commands_map_LogDebug
          h(9) fields_arm_deadline)
    with t show "tick infer env s =
        (Inr (), check_goal_reached (t0, t1, t2)
                   (emit (PublishCmd v w) (s1\<lparr>trace := trace s1 @ map LogDebug logs\<rparr>)))
      \<and> commands (trace (snd (tick infer env s))) = commands (trace s) @ [(v, w)]"
      by simp
  qed
  from a b show ?thesis by blast
qed

text \<open>
  C6 at a planner without an active goal, and at a planner with an active
  goal, a scan and a successful lookup.
\<close>

theorem tick_skips_or_publishes_once_witness:
  "tick infer_length env_at_origin planner_idle = (Inr (), arm_deadline 0 planner_idle)
   \<and> commands (trace (snd (tick infer_length env_at_origin planner_idle))) = []
   \<and> commands (trace (snd (tick infer_length env_at_origin planner_2))) = [(5, 0)]"
proof -
  have idle: "\<not> is_active planner_idle" "trace planner_idle = []"
    by (simp_all add: planner_idle_def planner_540_def is_active_def)
  have a: "tick infer_length env_at_origin planner_idle = (Inr (), arm_deadline 0 planner_idle)
      \<and> commands (trace (arm_deadline 0 planner_idle)) = []"
    using tick_skips_or_publishes_once [of planner_idle env_at_origin infer_length] idle
    by (simp add: env_at_origin_fields)
  note publish = tick_skips_or_publishes_once [of planner_2 env_at_origin infer_length goal_3_4
      scan_of_4 "(0, 0, 0)" "(0, 0, 0, 1)" 3 "- 4" 0 "[1, 3]" "[]" "[1, 3]" 5 0
      "emit (PublishFeedback \<lparr>stamp = 0, base_position =
         \<lparr>position = (0, 0, 0), orientation = (0, 0, 0, 1)\<rparr>\<rparr>) (arm_deadline 0 planner_2)"]
  have "tick infer_length env_at_origin planner_2 =
          (Inr (), check_goal_reached (3, - 4, 0)
             (emit (PublishCmd 5 0)
                ((emit (PublishFeedback \<lparr>stamp = 0, base_position =
                    \<lparr>position = (0, 0, 0), orientation = (0, 0, 0, 1)\<rparr>\<rparr>) (arm_deadline 0 planner_2))
                 \<lparr>trace := trace (emit (PublishFeedback \<lparr>stamp = 0, base_position =
                    \<lparr>position = (0, 0, 0), orientation = (0, 0, 0, 1)\<rparr>\<rparr>) (arm_deadline 0 planner_2))
                    @ map LogDebug []\<rparr>)))
        \<and> commands (trace (snd (tick infer_length env_at_origin planner_2))) =
            commands (trace planner_2) @ [(5, 0)]"
    by (rule mp [OF conjunct2 [OF publish]])
      (simp add: planner_2_fields env_at_origin_fields relative_target_goal_3_4 scan_of_4_def
        decimate_4 crop_scans_2 infer_length_def del: relative_target.simps)
  then have "commands (trace (snd (tick infer_length env_at_origin planner_2))) =
            commands (trace planner_2) @ [(5, 0)]"
    by (rule conjunct2)
  then have b: "commands (trace (snd (tick infer_length env_at_origin planner_2))) = [(5, 0)]"
    by (simp add: planner_2_fields)
  from a b show ?thesis by simp
qed

end
